theory Spec2Isabelle
  imports Main
begin

section \<open>The WebSocket admission layer of peerjs-server\<close>

text \<open>
  The development embeds \<^verbatim>\<open>src/services/webSocketServer/index\<close>: the compiled
  JavaScript class (called the JS variant below) and its TypeScript source (the TS
  variant), which differ in one assignment of \<^verbatim>\<open>_onSocketConnection\<close>.

  Objects with identity (sockets, \<^verbatim>\<open>Client\<close> instances) are handles into an explicit
  store, because the listeners installed by \<^verbatim>\<open>_configureWS\<close> close over a socket and
  a client and compare \<^verbatim>\<open>client.getSocket() === socket\<close> long after other connections
  have mutated the client. Every call that leaves the class (on a socket, on the realm,
  on the \<^verbatim>\<open>onClose\<close> callback, on the event emitter) is appended to a trace, so that
  "is sent", "fires exactly once" and "no registry access" are statements about the trace.
\<close>

subsection \<open>Wire frames and notifications\<close>

type_synonym sock = nat
type_synonym cref = nat

text \<open>
  The members of the enums \<^verbatim>\<open>MessageType\<close> and \<^verbatim>\<open>Errors\<close> that the class uses. The
  enums are declared in \<^verbatim>\<open>../../enums\<close>; the members are kept symbolic.
\<close>

datatype MessageType = OPEN | ID_TAKEN | ERROR

datatype Errors = INVALID_WS_PARAMETERS | INVALID_KEY | CONNECTION_LIMIT_EXCEED

datatype payload = Msg string | ErrMsg Errors

text \<open>The object handed to \<^verbatim>\<open>JSON.stringify\<close>: \<^verbatim>\<open>{ type, payload?: { msg } }\<close>.\<close>

datatype frame = Frame MessageType "payload option"

text \<open>A value produced by \<^verbatim>\<open>JSON.parse\<close>. Numbers are only carried, never computed on.\<close>

datatype json =
    JNull
  | JBool bool
  | JNum int
  | JStr string
  | JArr "json list"
  | JObj "(string \<times> json) list"

text \<open>
  What \<^verbatim>\<open>message.src = client.getId()\<close> leaves behind: an object with its properties
  in order, or an array that carries an own property \<^verbatim>\<open>src\<close>.
\<close>

datatype message =
    ObjMessage "(string \<times> json) list"
  | ArrMessage "json list" string

datatype js_error = SyntaxError | TypeError | SocketError

datatype outcome = Returned | Threw js_error

datatype event =
    ConnectionEv cref
  | CloseEv cref
  | MessageEv cref message
  | ErrorEv js_error

datatype call =
    SocketSend sock frame
  | SocketClose sock
  | RealmGetClientById string
  | RealmClearMessageQueue string
  | RealmRemoveClientById string
  | RealmGetClientsIds
  | RealmSetClient cref string
  | OnClose cref
  | Emit event

subsection \<open>State\<close>

record client =
  cid :: string
  ctoken :: string
  csocket :: "sock option"

text \<open>
  \<^verbatim>\<open>config\<close> as the class reads it (\<^verbatim>\<open>key\<close>, \<^verbatim>\<open>concurrent_limit\<close>) and whether the optional
  constructor argument \<^verbatim>\<open>onClose\<close> was supplied.
\<close>

record config =
  cfg_key :: string
  cfg_concurrent_limit :: int
  cfg_onClose :: bool

text \<open>
  The parsed query of the upgrade request, typed by \<^verbatim>\<open>IAuthParams\<close> as three optional
  strings; a parameter that is missing is \<open>None\<close>.
\<close>

record query =
  q_id :: "string option"
  q_token :: "string option"
  q_key :: "string option"

text \<open>
  \<open>heap\<close>: the \<^verbatim>\<open>Client\<close> objects ever constructed, a handle being an index.
  \<open>realm_clients\<close>, \<open>realm_queues\<close>: the realm's two maps, in insertion order.
  \<open>listeners\<close>: the closures installed by \<^verbatim>\<open>socket.on\<close>, as (socket, client) pairs.
  \<open>raising\<close>: the sockets whose \<^verbatim>\<open>close()\<close> throws; the source guards the one close
  it does on another connection's socket with \<^verbatim>\<open>try\<close>/\<^verbatim>\<open>finally\<close>.
  \<open>trace\<close>: the outgoing calls so far, oldest first.
\<close>

record state =
  heap :: "client list"
  realm_clients :: "(string \<times> cref) list"
  realm_queues :: "(string \<times> json list) list"
  listeners :: "(sock \<times> cref) list"
  raising :: "sock list"
  trace :: "call list"

definition init_state :: state where
  "init_state = \<lparr>heap = [], realm_clients = [], realm_queues = [], listeners = [],
     raising = [], trace = []\<rparr>"

definition log :: "call \<Rightarrow> state \<Rightarrow> state" where
  "log c s = s\<lparr>trace := trace s @ [c]\<rparr>"

text \<open>The calls a handler added to the trace.\<close>

definition new_calls :: "state \<Rightarrow> state \<Rightarrow> call list" where
  "new_calls s s' = drop (length (trace s)) (trace s')"

fun is_realm_call :: "call \<Rightarrow> bool" where
  "is_realm_call (RealmGetClientById _) = True"
| "is_realm_call (RealmClearMessageQueue _) = True"
| "is_realm_call (RealmRemoveClientById _) = True"
| "is_realm_call RealmGetClientsIds = True"
| "is_realm_call (RealmSetClient _ _) = True"
| "is_realm_call _ = False"

subsection \<open>Collaborators that the class imports\<close>

text \<open>Modelled from the spec: insertion into a mapping, as a JavaScript \<^verbatim>\<open>Map.set\<close>
  does it: replace in place, or append.\<close>

fun put :: "'k \<Rightarrow> 'v \<Rightarrow> ('k \<times> 'v) list \<Rightarrow> ('k \<times> 'v) list" where
  "put k v [] = [(k, v)]"
| "put k v ((k', v') # ps) = (if k' = k then (k, v) # ps else (k', v') # put k v ps)"

text \<open>Modelled from the spec: removal of a key from a mapping.\<close>

fun del :: "'k \<Rightarrow> ('k \<times> 'v) list \<Rightarrow> ('k \<times> 'v) list" where
  "del k [] = []"
| "del k ((k', v') # ps) = (if k' = k then del k ps else (k', v') # del k ps)"

text \<open>
  The realm (\<^verbatim>\<open>../../models/realm\<close>) is imported by the class. The spec gives it as a
  mapping from session identifier to session entity, with a message queue per identifier;
  here both are maps in insertion order, and every call is recorded in the trace.
\<close>

text \<open>Modelled from the spec: the realm's \<^verbatim>\<open>lookup(id) -> Session?\<close>.\<close>

definition realm_getClientById :: "string \<Rightarrow> state \<Rightarrow> cref option \<times> state" where
  "realm_getClientById i s = (map_of (realm_clients s) i, log (RealmGetClientById i) s)"

text \<open>Modelled from the spec: the realm's \<^verbatim>\<open>liveIds()\<close>, the identifiers of the sessions.\<close>

definition realm_getClientsIds :: "state \<Rightarrow> string list \<times> state" where
  "realm_getClientsIds s = (map fst (realm_clients s), log RealmGetClientsIds s)"

text \<open>Modelled from the spec: the realm's \<^verbatim>\<open>insert(session, id)\<close>.\<close>

definition realm_setClient :: "cref \<Rightarrow> string \<Rightarrow> state \<Rightarrow> state" where
  "realm_setClient c i s =
     log (RealmSetClient c i) (s\<lparr>realm_clients := put i c (realm_clients s)\<rparr>)"

text \<open>Modelled from the spec: the realm's \<^verbatim>\<open>remove(id)\<close>.\<close>

definition realm_removeClientById :: "string \<Rightarrow> state \<Rightarrow> state" where
  "realm_removeClientById i s =
     log (RealmRemoveClientById i) (s\<lparr>realm_clients := del i (realm_clients s)\<rparr>)"

text \<open>Modelled from the spec: the realm's \<^verbatim>\<open>clearQueue(id)\<close>.\<close>

definition realm_clearMessageQueue :: "string \<Rightarrow> state \<Rightarrow> state" where
  "realm_clearMessageQueue i s =
     log (RealmClearMessageQueue i) (s\<lparr>realm_queues := del i (realm_queues s)\<rparr>)"

text \<open>
  The session entity (\<^verbatim>\<open>../../models/client\<close>) is imported as well. The spec gives
  it as holding identifier, secret token and a nullable transport handle.
\<close>

text \<open>Modelled from the spec: a session constructed from identifier and token; no
  transport is bound yet.\<close>

definition new_Client :: "string \<Rightarrow> string \<Rightarrow> state \<Rightarrow> cref \<times> state" where
  "new_Client i t s =
     (length (heap s), s\<lparr>heap := heap s @ [\<lparr>cid = i, ctoken = t, csocket = None\<rparr>]\<rparr>)"

text \<open>Modelled from the spec: the session's \<^verbatim>\<open>id() -> string\<close>.\<close>

definition client_getId :: "cref \<Rightarrow> state \<Rightarrow> string" where
  "client_getId c s = cid (heap s ! c)"

text \<open>Modelled from the spec: the session's \<^verbatim>\<open>token() -> string\<close>.\<close>

definition client_getToken :: "cref \<Rightarrow> state \<Rightarrow> string" where
  "client_getToken c s = ctoken (heap s ! c)"

text \<open>Modelled from the spec: the session's \<^verbatim>\<open>transport() -> Handle?\<close>.\<close>

definition client_getSocket :: "cref \<Rightarrow> state \<Rightarrow> sock option" where
  "client_getSocket c s = csocket (heap s ! c)"

text \<open>Modelled from the spec: the session's \<^verbatim>\<open>setTransport(Handle?)\<close>.\<close>

definition client_setSocket :: "cref \<Rightarrow> sock option \<Rightarrow> state \<Rightarrow> state" where
  "client_setSocket c x s = s\<lparr>heap := (heap s)[c := (heap s ! c)\<lparr>csocket := x\<rparr>]\<rparr>"

text \<open>
  The socket of the \<^verbatim>\<open>ws\<close> library. \<^verbatim>\<open>send\<close> and \<^verbatim>\<open>close\<close> are recorded; \<^verbatim>\<open>close\<close>
  throws on the sockets listed in \<open>raising\<close>, and \<^verbatim>\<open>send\<close> is taken to return.
  \<^verbatim>\<open>_configureWS\<close> installs its "close" and its "message" listener together, so one
  entry of \<open>listeners\<close> stands for both. Emitted events are recorded; what their
  subscribers do is outside the class.
\<close>

definition socket_send :: "sock \<Rightarrow> frame \<Rightarrow> state \<Rightarrow> state" where
  "socket_send socket f s = log (SocketSend socket f) s"

definition socket_close :: "sock \<Rightarrow> state \<Rightarrow> outcome \<times> state" where
  "socket_close socket s =
     (if socket \<in> set (raising s) then Threw SocketError else Returned,
      log (SocketClose socket) s)"

definition socket_on :: "sock \<Rightarrow> cref \<Rightarrow> state \<Rightarrow> state" where
  "socket_on socket c s = s\<lparr>listeners := listeners s @ [(socket, c)]\<rparr>"

definition emit :: "event \<Rightarrow> state \<Rightarrow> state" where
  "emit e s = log (Emit e) s"

subsection \<open>The class WebSocketServer\<close>

definition sendErrorAndClose :: "sock \<Rightarrow> Errors \<Rightarrow> state \<Rightarrow> outcome \<times> state" where
  "sendErrorAndClose socket msg s =
     socket_close socket (socket_send socket (Frame ERROR (Some (ErrMsg msg))) s)"

definition configureWS :: "sock \<Rightarrow> cref \<Rightarrow> state \<Rightarrow> outcome \<times> state" where
  "configureWS socket c s =
     (let s1 = client_setSocket c (Some socket) s;
          s2 = socket_on socket c s1
      in (Returned, emit (ConnectionEv c) s2))"

definition registerClient :: "config \<Rightarrow> sock \<Rightarrow> string \<Rightarrow> string \<Rightarrow> state \<Rightarrow> outcome \<times> state" where
  "registerClient cfg socket i token s =
     (let (ids, s1) = realm_getClientsIds s;
          clientsCount = int (length ids)
      in if clientsCount \<ge> cfg_concurrent_limit cfg then
           sendErrorAndClose socket CONNECTION_LIMIT_EXCEED s1
         else
           (let (newClient, s2) = new_Client i token s1;
                s3 = realm_setClient newClient i s2;
                s4 = socket_send socket (Frame OPEN None) s3
            in configureWS socket newClient s4))"

text \<open>
  The \<^verbatim>\<open>try { client.getSocket()?.close() } finally { ... }\<close> block, the same in both
  variants. There is no \<^verbatim>\<open>catch\<close>: when the close throws, the four statements of
  \<^verbatim>\<open>finally\<close> run and the exception then leaves the block.
\<close>

definition evict :: "config \<Rightarrow> cref \<Rightarrow> string \<Rightarrow> state \<Rightarrow> outcome \<times> state" where
  "evict cfg c i s =
     (let (r, s1) = (case client_getSocket c s of
                       None \<Rightarrow> (Returned, s)
                     | Some old \<Rightarrow> socket_close old s);
          s2 = realm_clearMessageQueue i s1;
          s3 = realm_removeClientById i s2;
          s4 = client_setSocket c None s3;
          s5 = (if cfg_onClose cfg then log (OnClose c) s4 else s4)
      in (r, s5))"

definition RECONNECT :: string where
  "RECONNECT = ''__RECONNECT__''"

text \<open>\<^verbatim>\<open>_onSocketConnection\<close> of the compiled JavaScript: the token is used as presented.\<close>

definition onSocketConnection_js :: "config \<Rightarrow> sock \<Rightarrow> query \<Rightarrow> state \<Rightarrow> outcome \<times> state" where
  "onSocketConnection_js cfg socket q s =
     (case (q_id q, q_token q, q_key q) of
        (Some i, Some token, Some k) \<Rightarrow>
          if i = [] \<or> token = [] \<or> k = [] then
            sendErrorAndClose socket INVALID_WS_PARAMETERS s
          else if k \<noteq> cfg_key cfg then
            sendErrorAndClose socket INVALID_KEY s
          else
            (case realm_getClientById i s of
               (Some c, s1) \<Rightarrow>
                 if token = RECONNECT then
                   (case evict cfg c i s1 of
                      (Threw e, s2) \<Rightarrow> (Threw e, s2)
                    | (Returned, s2) \<Rightarrow> registerClient cfg socket i token s2)
                 else if token \<noteq> client_getToken c s1 then
                   socket_close socket
                     (socket_send socket (Frame ID_TAKEN (Some (Msg ''ID is taken''))) s1)
                 else configureWS socket c s1
             | (None, s1) \<Rightarrow> registerClient cfg socket i token s1)
      | _ \<Rightarrow> sendErrorAndClose socket INVALID_WS_PARAMETERS s)"

text \<open>
  \<^verbatim>\<open>_onSocketConnection\<close> of the TypeScript source: \<^verbatim>\<open>finalToken\<close> starts as the
  presented token and is replaced after an eviction by
  \<^verbatim>\<open>Math.random().toString(36).substr(2)\<close>, whose value is the argument \<open>rnd\<close>.
\<close>

definition onSocketConnection_ts ::
  "config \<Rightarrow> string \<Rightarrow> sock \<Rightarrow> query \<Rightarrow> state \<Rightarrow> outcome \<times> state" where
  "onSocketConnection_ts cfg rnd socket q s =
     (case (q_id q, q_token q, q_key q) of
        (Some i, Some token, Some k) \<Rightarrow>
          if i = [] \<or> token = [] \<or> k = [] then
            sendErrorAndClose socket INVALID_WS_PARAMETERS s
          else if k \<noteq> cfg_key cfg then
            sendErrorAndClose socket INVALID_KEY s
          else
            (case realm_getClientById i s of
               (Some c, s1) \<Rightarrow>
                 if token = RECONNECT then
                   (case evict cfg c i s1 of
                      (Threw e, s2) \<Rightarrow> (Threw e, s2)
                    | (Returned, s2) \<Rightarrow>
                        (let finalToken = rnd
                         in registerClient cfg socket i finalToken s2))
                 else if token \<noteq> client_getToken c s1 then
                   socket_close socket
                     (socket_send socket (Frame ID_TAKEN (Some (Msg ''ID is taken''))) s1)
                 else configureWS socket c s1
             | (None, s1) \<Rightarrow> (let finalToken = token in registerClient cfg socket i finalToken s1))
      | _ \<Rightarrow> sendErrorAndClose socket INVALID_WS_PARAMETERS s)"

text \<open>Either variant, for statements about both.\<close>

datatype variant = JS | TS

fun onSocketConnection ::
  "variant \<Rightarrow> config \<Rightarrow> string \<Rightarrow> sock \<Rightarrow> query \<Rightarrow> state \<Rightarrow> outcome \<times> state" where
  "onSocketConnection JS cfg rnd socket q s = onSocketConnection_js cfg socket q s"
| "onSocketConnection TS cfg rnd socket q s = onSocketConnection_ts cfg rnd socket q s"

subsection \<open>The listeners installed by \<^verbatim>\<open>_configureWS\<close>\<close>

text \<open>The "close" listener of \<open>socket\<close>, closed over \<open>client\<close>.\<close>

definition close_listener :: "sock \<Rightarrow> cref \<Rightarrow> state \<Rightarrow> state" where
  "close_listener socket c s =
     (if client_getSocket c s = Some socket then
        emit (CloseEv c) (realm_removeClientById (client_getId c s) s)
      else s)"

text \<open>
  \<^verbatim>\<open>message.src = client.getId()\<close> in strict mode: an object or an array takes the
  property, \<^verbatim>\<open>null\<close> and the primitive values throw a \<^verbatim>\<open>TypeError\<close>.
\<close>

fun assign_src :: "string \<Rightarrow> json \<Rightarrow> js_error + message" where
  "assign_src i (JObj kvs) = Inr (ObjMessage (put ''src'' (JStr i) kvs))"
| "assign_src i (JArr xs) = Inr (ArrMessage xs i)"
| "assign_src i _ = Inl TypeError"

text \<open>
  The "message" listener. \<open>JSON_parse\<close> is the built-in \<^verbatim>\<open>JSON.parse\<close>, \<open>None\<close> where
  it throws a \<^verbatim>\<open>SyntaxError\<close>; the \<^verbatim>\<open>catch\<close> turns either exception into an "error"
  event.
\<close>

definition message_listener ::
  "(string \<Rightarrow> json option) \<Rightarrow> sock \<Rightarrow> cref \<Rightarrow> string \<Rightarrow> state \<Rightarrow> state" where
  "message_listener JSON_parse socket c data s =
     (case JSON_parse data of
        None \<Rightarrow> emit (ErrorEv SyntaxError) s
      | Some parsed \<Rightarrow>
          (case assign_src (client_getId c s) parsed of
             Inl e \<Rightarrow> emit (ErrorEv e) s
           | Inr m \<Rightarrow> emit (MessageEv c m) s))"

subsection \<open>Reachable states\<close>

text \<open>
  The server starts with an empty realm. A step is a connection handled by either
  variant, a "close" or "message" event delivered to an installed listener, or a change
  made by the surroundings: messages queued by the dispatcher, and sockets whose close
  starts or stops throwing. Sockets are not required to be new and events may repeat, so
  every run of the real server is covered.
\<close>

inductive reachable :: "config \<Rightarrow> state \<Rightarrow> bool" for cfg :: config where
  r_init: "reachable cfg init_state"
| r_connect: "reachable cfg s \<Longrightarrow> reachable cfg (snd (onSocketConnection v cfg rnd socket q s))"
| r_close: "reachable cfg s \<Longrightarrow> (socket, c) \<in> set (listeners s) \<Longrightarrow>
     reachable cfg (close_listener socket c s)"
| r_message: "reachable cfg s \<Longrightarrow> (socket, c) \<in> set (listeners s) \<Longrightarrow>
     reachable cfg (message_listener JSON_parse socket c data s)"
| r_queues: "reachable cfg s \<Longrightarrow> reachable cfg (s\<lparr>realm_queues := qs\<rparr>)"
| r_raising: "reachable cfg s \<Longrightarrow> reachable cfg (s\<lparr>raising := rs\<rparr>)"

text \<open>
  What every reachable state satisfies: the realm's keys are distinct, every entry and
  every listener refers to a constructed client, an entry's key is its client's id, and
  a non-empty realm holds at most \<^verbatim>\<open>concurrent_limit\<close> clients.
\<close>

definition registry_ok :: "config \<Rightarrow> state \<Rightarrow> bool" where
  "registry_ok cfg s =
     (distinct (map fst (realm_clients s)) \<and>
      list_all (\<lambda>(k, c). c < length (heap s) \<and> cid (heap s ! c) = k) (realm_clients s) \<and>
      list_all (\<lambda>(k, c). c < length (heap s)) (listeners s) \<and>
      (realm_clients s = [] \<or> int (length (realm_clients s)) \<le> cfg_concurrent_limit cfg))"

text \<open>The registered sessions whose identifier is \<open>i\<close>.\<close>

definition sessions_of :: "state \<Rightarrow> string \<Rightarrow> (string \<times> cref) list" where
  "sessions_of s i = filter (\<lambda>(k, c). k = i \<or> cid (heap s ! c) = i) (realm_clients s)"


subsection \<open>Vocabulary of the statements\<close>

text \<open>
  A connection attempt that passes both checks of the gate: \<^verbatim>\<open>id\<close>, \<^verbatim>\<open>token\<close> and
  \<^verbatim>\<open>key\<close> are present and not empty, and the key is the configured one.
\<close>

definition valid_attempt :: "config \<Rightarrow> query \<Rightarrow> string \<Rightarrow> string \<Rightarrow> bool" where
  "valid_attempt cfg q i token =
     (q_id q = Some i \<and> q_token q = Some token \<and> q_key q = Some (cfg_key cfg) \<and>
      i \<noteq> [] \<and> token \<noteq> [] \<and> cfg_key cfg \<noteq> [])"

text \<open>How \<^verbatim>\<open>client.getSocket()?.close()\<close> ends for client \<open>c\<close>.\<close>

definition close_outcome :: "cref \<Rightarrow> state \<Rightarrow> outcome" where
  "close_outcome c s =
     (case csocket (heap s ! c) of
        None \<Rightarrow> Returned
      | Some old \<Rightarrow> if old \<in> set (raising s) then Threw SocketError else Returned)"

text \<open>The calls of the eviction block, in order.\<close>

definition evict_calls :: "config \<Rightarrow> cref \<Rightarrow> string \<Rightarrow> state \<Rightarrow> call list" where
  "evict_calls cfg c i s =
     (case csocket (heap s ! c) of None \<Rightarrow> [] | Some old \<Rightarrow> [SocketClose old]) @
     [RealmClearMessageQueue i, RealmRemoveClientById i] @
     (if cfg_onClose cfg then [OnClose c] else [])"

text \<open>The source's \<^verbatim>\<open>!x\<close> on a query parameter: it is missing or the empty string.\<close>

definition missing :: "string option \<Rightarrow> bool" where
  "missing p = (p = None \<or> p = Some [])"

fun is_socket_close :: "call \<Rightarrow> bool" where
  "is_socket_close (SocketClose _) = True"
| "is_socket_close _ = False"

text \<open>
  The attempts on which the two variants can differ: a valid attempt with the reconnect
  token for an id that is registered, where the close of the old socket returns and the
  realm, the old client removed, is below the limit.
\<close>

definition reregisters :: "config \<Rightarrow> query \<Rightarrow> state \<Rightarrow> bool" where
  "reregisters cfg q s =
     (case q_id q of
        None \<Rightarrow> False
      | Some i \<Rightarrow>
          valid_attempt cfg q i RECONNECT \<and>
          (case map_of (realm_clients s) i of
             None \<Rightarrow> False
           | Some c \<Rightarrow>
               close_outcome c s = Returned \<and>
               int (length (del i (realm_clients s))) < cfg_concurrent_limit cfg))"

text \<open>
  On the wire a frame carries, as its \<^verbatim>\<open>type\<close>, the string that the member of
  \<^verbatim>\<open>MessageType\<close> stands for. The assignment of strings to members is made in
  \<^verbatim>\<open>../../enums\<close>, so it is an argument here.
\<close>

fun frame_type :: "frame \<Rightarrow> MessageType" where
  "frame_type (Frame t p) = t"

fun frame_payload :: "frame \<Rightarrow> payload option" where
  "frame_payload (Frame t p) = p"

definition wire_type :: "(MessageType \<Rightarrow> string) \<Rightarrow> frame \<Rightarrow> string" where
  "wire_type value_of f = value_of (frame_type f)"

text \<open>
  The strings that the enum \<^verbatim>\<open>MessageType\<close> of peerjs-server declares for the three
  members: \<^verbatim>\<open>OPEN = "OPEN"\<close>, \<^verbatim>\<open>ID_TAKEN = "ID-TAKEN"\<close> (with a hyphen) and
  \<^verbatim>\<open>ERROR = "ERROR"\<close>. Only statements that name \<open>MessageType_declared\<close> depend on them.
\<close>

fun MessageType_declared :: "MessageType \<Rightarrow> string" where
  "MessageType_declared OPEN = ''OPEN''"
| "MessageType_declared ID_TAKEN = ''ID-TAKEN''"
| "MessageType_declared ERROR = ''ERROR''"

text \<open>The frames sent on a socket, among some calls.\<close>

fun sent_on :: "sock \<Rightarrow> call list \<Rightarrow> frame list" where
  "sent_on socket [] = []"
| "sent_on socket (SocketSend k f # cs) =
     (if k = socket then f # sent_on socket cs else sent_on socket cs)"
| "sent_on socket (_ # cs) = sent_on socket cs"

subsection \<open>A small server, for concrete runs\<close>

definition ex_cfg :: config where
  "ex_cfg = \<lparr>cfg_key = ''peerjs'', cfg_concurrent_limit = 1, cfg_onClose = True\<rparr>"

definition ex_query :: "string \<Rightarrow> string \<Rightarrow> query" where
  "ex_query i t = \<lparr>q_id = Some i, q_token = Some t, q_key = Some ''peerjs''\<rparr>"

text \<open>The server after its first connection: peer \<open>A\<close> with token \<open>t\<close> on socket 0.\<close>

definition ex_session :: "string \<Rightarrow> state" where
  "ex_session t = snd (onSocketConnection TS ex_cfg ''k3x9'' 0 (ex_query ''A'' t) init_state)"

text \<open>A stand-in for \<^verbatim>\<open>JSON.parse\<close> that knows two payloads.\<close>

definition ex_parse :: "string \<Rightarrow> json option" where
  \<open>ex_parse d =
     (if d = ''{"src":"forged","foo":1}'' then
        Some (JObj [(''src'', JStr ''forged''), (''foo'', JNum 1)])
      else if d = ''null'' then Some JNull
      else None)\<close>

section \<open>Properties\<close>

text \<open>The equations that run a handler on a concrete state.\<close>

lemmas run_defs =
  onSocketConnection_js_def onSocketConnection_ts_def registerClient_def evict_def
  configureWS_def sendErrorAndClose_def socket_close_def socket_send_def socket_on_def
  emit_def log_def realm_getClientById_def realm_getClientsIds_def realm_setClient_def
  realm_removeClientById_def realm_clearMessageQueue_def new_Client_def client_getId_def
  client_getToken_def client_getSocket_def client_setSocket_def init_state_def
  RECONNECT_def close_listener_def message_listener_def new_calls_def
  ex_cfg_def ex_query_def ex_session_def ex_parse_def

subsection \<open>Maps in insertion order\<close>

lemma map_of_put: "map_of (put k v ps) k' = (if k' = k then Some v else map_of ps k')"
  by (induction ps) auto

lemma map_of_del: "map_of (del k ps) k' = (if k' = k then None else map_of ps k')"
  by (induction ps) auto

lemma del_filter: "del k ps = filter (\<lambda>p. fst p \<noteq> k) ps"
  by (induction ps) auto

lemma in_set_del: "(k', v) \<in> set (del k ps) \<longleftrightarrow> (k', v) \<in> set ps \<and> k' \<noteq> k"
  by (simp add: del_filter)

lemma put_absent: "map_of ps k = None \<Longrightarrow> put k v ps = ps @ [(k, v)]"
  by (induction ps) (auto split: if_splits)

lemma del_absent: "map_of ps k = None \<Longrightarrow> del k ps = ps"
  by (induction ps) (auto split: if_splits)

lemma length_del_le: "length (del k ps) \<le> length ps"
  by (induction ps) auto

lemma length_del_less: "map_of ps k = Some v \<Longrightarrow> length (del k ps) < length ps"
  by (induction ps) (auto split: if_splits simp: le_imp_less_Suc length_del_le)

lemma distinct_del: "distinct (map fst ps) \<Longrightarrow> distinct (map fst (del k ps))"
  by (simp add: del_filter distinct_map_filter)

subsection \<open>The paths of the connection handler\<close>

lemma registerClient_full:
  "cfg_concurrent_limit cfg \<le> int (length (realm_clients s)) \<Longrightarrow>
   registerClient cfg socket i t s =
     (if socket \<in> set (raising s) then Threw SocketError else Returned,
      s\<lparr>trace := trace s @ [RealmGetClientsIds,
           SocketSend socket (Frame ERROR (Some (ErrMsg CONNECTION_LIMIT_EXCEED))),
           SocketClose socket]\<rparr>)"
  by (simp add: registerClient_def realm_getClientsIds_def sendErrorAndClose_def
      socket_close_def socket_send_def log_def)

lemma registerClient_admit:
  "int (length (realm_clients s)) < cfg_concurrent_limit cfg \<Longrightarrow>
   registerClient cfg socket i t s =
     (Returned,
      s\<lparr>heap := heap s @ [\<lparr>cid = i, ctoken = t, csocket = Some socket\<rparr>],
        realm_clients := put i (length (heap s)) (realm_clients s),
        listeners := listeners s @ [(socket, length (heap s))],
        trace := trace s @ [RealmGetClientsIds, RealmSetClient (length (heap s)) i,
           SocketSend socket (Frame OPEN None), Emit (ConnectionEv (length (heap s)))]\<rparr>)"
  by (simp add: registerClient_def realm_getClientsIds_def new_Client_def realm_setClient_def
      socket_send_def configureWS_def client_setSocket_def socket_on_def emit_def log_def)

lemma evict_full:
  "evict cfg c i s =
     (close_outcome c s,
      s\<lparr>heap := (heap s)[c := (heap s ! c)\<lparr>csocket := None\<rparr>],
        realm_clients := del i (realm_clients s),
        realm_queues := del i (realm_queues s),
        trace := trace s @ evict_calls cfg c i s\<rparr>)"
  by (simp add: evict_def close_outcome_def evict_calls_def client_getSocket_def socket_close_def
      realm_clearMessageQueue_def realm_removeClientById_def client_setSocket_def log_def
      split: option.splits)

lemma connection_register:
  "valid_attempt cfg q i token \<Longrightarrow> map_of (realm_clients s) i = None \<Longrightarrow>
   onSocketConnection v cfg rnd socket q s =
     registerClient cfg socket i token (log (RealmGetClientById i) s)"
  by (cases v) (simp_all add: valid_attempt_def onSocketConnection_js_def
      onSocketConnection_ts_def realm_getClientById_def)

lemma connection_evict:
  "valid_attempt cfg q i RECONNECT \<Longrightarrow> map_of (realm_clients s) i = Some c \<Longrightarrow>
   onSocketConnection v cfg rnd socket q s =
     (case evict cfg c i (log (RealmGetClientById i) s) of
        (Threw e, s2) \<Rightarrow> (Threw e, s2)
      | (Returned, s2) \<Rightarrow>
          registerClient cfg socket i (case v of JS \<Rightarrow> RECONNECT | TS \<Rightarrow> rnd) s2)"
  by (cases v) (simp_all add: valid_attempt_def onSocketConnection_js_def
      onSocketConnection_ts_def realm_getClientById_def split: prod.splits outcome.splits)

lemma connection_reject:
  "valid_attempt cfg q i token \<Longrightarrow> map_of (realm_clients s) i = Some c \<Longrightarrow>
   token \<noteq> RECONNECT \<Longrightarrow> token \<noteq> ctoken (heap s ! c) \<Longrightarrow>
   onSocketConnection v cfg rnd socket q s =
     (if socket \<in> set (raising s) then Threw SocketError else Returned,
      s\<lparr>trace := trace s @ [RealmGetClientById i,
           SocketSend socket (Frame ID_TAKEN (Some (Msg ''ID is taken''))),
           SocketClose socket]\<rparr>)"
  by (cases v) (simp_all add: valid_attempt_def onSocketConnection_js_def
      onSocketConnection_ts_def realm_getClientById_def client_getToken_def
      socket_close_def socket_send_def log_def)

lemma connection_rebind:
  "valid_attempt cfg q i token \<Longrightarrow> map_of (realm_clients s) i = Some c \<Longrightarrow>
   token \<noteq> RECONNECT \<Longrightarrow> token = ctoken (heap s ! c) \<Longrightarrow>
   onSocketConnection v cfg rnd socket q s =
     (Returned,
      s\<lparr>heap := (heap s)[c := (heap s ! c)\<lparr>csocket := Some socket\<rparr>],
        listeners := listeners s @ [(socket, c)],
        trace := trace s @ [RealmGetClientById i, Emit (ConnectionEv c)]\<rparr>)"
  by (cases v) (simp_all add: valid_attempt_def onSocketConnection_js_def
      onSocketConnection_ts_def realm_getClientById_def client_getToken_def
      configureWS_def client_setSocket_def socket_on_def emit_def log_def)

lemma connection_invalid:
  "\<not> (\<exists>i token. valid_attempt cfg q i token) \<Longrightarrow>
   \<exists>e. onSocketConnection v cfg rnd socket q s =
     (if socket \<in> set (raising s) then Threw SocketError else Returned,
      s\<lparr>trace := trace s @ [SocketSend socket (Frame ERROR (Some (ErrMsg e))),
           SocketClose socket]\<rparr>)"
  by (cases v) (auto simp add: valid_attempt_def onSocketConnection_js_def
      onSocketConnection_ts_def sendErrorAndClose_def
      socket_close_def socket_send_def log_def split: option.splits)

subsection \<open>What holds in every reachable state\<close>

lemma registry_ok_trace [simp]: "registry_ok cfg (s\<lparr>trace := t\<rparr>) = registry_ok cfg s"
  by (simp add: registry_ok_def)

lemma registry_ok_log [simp]: "registry_ok cfg (log c s) = registry_ok cfg s"
  by (simp add: log_def)

lemma registry_ok_iff:
  "registry_ok cfg s \<longleftrightarrow>
     distinct (map fst (realm_clients s)) \<and>
     (\<forall>k c. (k, c) \<in> set (realm_clients s) \<longrightarrow> c < length (heap s) \<and> cid (heap s ! c) = k) \<and>
     (\<forall>k c. (k, c) \<in> set (listeners s) \<longrightarrow> c < length (heap s)) \<and>
     (realm_clients s = [] \<or> int (length (realm_clients s)) \<le> cfg_concurrent_limit cfg)"
  by (auto simp: registry_ok_def list_all_iff)

lemma cid_setSocket [simp]: "cid (h[c := (h ! c)\<lparr>csocket := x\<rparr>] ! c') = cid (h ! c')"
  by (cases "c < length h") (auto simp: nth_list_update list_update_beyond)

lemma registry_ok_lookup:
  "registry_ok cfg s \<Longrightarrow> map_of (realm_clients s) i = Some c \<Longrightarrow>
   c < length (heap s) \<and> cid (heap s ! c) = i"
  by (auto simp: registry_ok_def list_all_iff dest!: map_of_SomeD)

lemma registry_ok_admit:
  assumes "registry_ok cfg s" "map_of (realm_clients s) i = None"
    "int (length (realm_clients s)) < cfg_concurrent_limit cfg"
  shows "registry_ok cfg (snd (registerClient cfg socket i t s))"
  using assms
  unfolding registry_ok_iff
  by (auto simp: registerClient_admit put_absent nth_append map_of_eq_None_iff
      intro: less_SucI)

lemma registry_ok_full:
  assumes "registry_ok cfg s" "cfg_concurrent_limit cfg \<le> int (length (realm_clients s))"
  shows "registry_ok cfg (snd (registerClient cfg socket i t s))"
  using assms by (simp add: registerClient_full)

lemma registry_ok_register:
  assumes "registry_ok cfg s" "map_of (realm_clients s) i = None"
  shows "registry_ok cfg (snd (registerClient cfg socket i t s))"
  using assms registry_ok_admit registry_ok_full
  by (cases "int (length (realm_clients s)) < cfg_concurrent_limit cfg") auto

lemma registry_ok_evict:
  assumes "registry_ok cfg s"
  shows "registry_ok cfg (snd (evict cfg c i s))"
proof -
  have "int (length (del i (realm_clients s))) \<le> int (length (realm_clients s))"
    by (simp add: length_del_le)
  with assms show ?thesis
    unfolding registry_ok_iff
    by (auto simp: evict_full distinct_del in_set_del)
qed

lemma evict_lookup: "map_of (realm_clients (snd (evict cfg c i s))) i = None"
  by (simp add: evict_full map_of_del)

lemma registry_ok_rebind:
  assumes "registry_ok cfg s" "c < length (heap s)"
  shows "registry_ok cfg (s\<lparr>heap := (heap s)[c := (heap s ! c)\<lparr>csocket := x\<rparr>],
           listeners := listeners s @ [(socket, c)], trace := t\<rparr>)"
  using assms unfolding registry_ok_iff by auto

lemma registry_ok_connection:
  assumes "registry_ok cfg s"
  shows "registry_ok cfg (snd (onSocketConnection v cfg rnd socket q s))"
proof (cases "\<exists>i token. valid_attempt cfg q i token")
  case False
  then obtain e where "onSocketConnection v cfg rnd socket q s =
     (if socket \<in> set (raising s) then Threw SocketError else Returned,
      s\<lparr>trace := trace s @ [SocketSend socket (Frame ERROR (Some (ErrMsg e))),
           SocketClose socket]\<rparr>)"
    using connection_invalid by blast
  with assms show ?thesis by simp
next
  case True
  then obtain i token where va: "valid_attempt cfg q i token" by blast
  let ?s1 = "log (RealmGetClientById i) s"
  have ok1: "registry_ok cfg ?s1" using assms by simp
  have rc1: "realm_clients ?s1 = realm_clients s" by (simp add: log_def)
  show ?thesis
  proof (cases "map_of (realm_clients s) i")
    case None
    then show ?thesis
      using connection_register [OF va None] registry_ok_register [OF ok1] rc1 by simp
  next
    case (Some c)
    note look = registry_ok_lookup [OF assms Some]
    show ?thesis
    proof (cases "token = RECONNECT")
      case True
      obtain r s2 where ev: "evict cfg c i ?s1 = (r, s2)" by (cases "evict cfg c i ?s1")
      have ok2: "registry_ok cfg s2" using registry_ok_evict [OF ok1, of c i] ev by simp
      have none2: "map_of (realm_clients s2) i = None"
        using evict_lookup [of cfg c i ?s1] ev by simp
      show ?thesis
        using connection_evict [of cfg q i s c v rnd socket] va True Some ev ok2
          registry_ok_register [OF ok2 none2]
        by (cases r) simp_all
    next
      case False
      show ?thesis
      proof (cases "token = ctoken (heap s ! c)")
        case True
        show ?thesis
          using connection_rebind [OF va Some False True] registry_ok_rebind [OF assms] look
          by simp
      next
        case F2: False
        show ?thesis
          using connection_reject [OF va Some False F2] assms by simp
      qed
    qed
  qed
qed

lemma registry_ok_close:
  assumes "registry_ok cfg s"
  shows "registry_ok cfg (close_listener socket c s)"
proof -
  have "int (length (del (client_getId c s) (realm_clients s))) \<le> int (length (realm_clients s))"
    by (simp add: length_del_le)
  with assms show ?thesis
    unfolding registry_ok_iff
    by (auto simp: close_listener_def emit_def realm_removeClientById_def
        distinct_del in_set_del log_def)
qed

lemma message_listener_state:
  "\<exists>e. message_listener JSON_parse socket c data s = emit e s"
  by (auto simp: message_listener_def split: option.splits sum.splits)

lemma registry_ok_message:
  assumes "registry_ok cfg s"
  shows "registry_ok cfg (message_listener JSON_parse socket c data s)"
proof -
  obtain e where "message_listener JSON_parse socket c data s = emit e s"
    using message_listener_state by blast
  with assms show ?thesis by (simp add: emit_def)
qed

lemma registry_ok_init: "registry_ok cfg init_state"
  by (simp add: registry_ok_def init_state_def)

lemma reachable_registry_ok: "reachable cfg s \<Longrightarrow> registry_ok cfg s"
proof (induction rule: reachable.induct)
  case r_init
  show ?case by (rule registry_ok_init)
next
  case (r_connect s v rnd socket q)
  then show ?case by (simp add: registry_ok_connection)
next
  case (r_close s socket c)
  then show ?case by (simp add: registry_ok_close)
next
  case (r_message s socket c JSON_parse data)
  then show ?case by (simp add: registry_ok_message)
next
  case (r_queues s qs)
  then show ?case by (simp add: registry_ok_def)
next
  case (r_raising s rs)
  then show ?case by (simp add: registry_ok_def)
qed

subsection \<open>The gate\<close>

lemma conn_missing:
  "missing (q_id q) \<or> missing (q_token q) \<or> missing (q_key q) \<Longrightarrow>
   onSocketConnection v cfg rnd socket q s = sendErrorAndClose socket INVALID_WS_PARAMETERS s"
  by (cases v) (auto simp: missing_def onSocketConnection_js_def onSocketConnection_ts_def
      split: option.splits)

lemma conn_bad_key:
  "\<not> missing (q_id q) \<Longrightarrow> \<not> missing (q_token q) \<Longrightarrow> \<not> missing (q_key q) \<Longrightarrow>
   q_key q \<noteq> Some (cfg_key cfg) \<Longrightarrow>
   onSocketConnection v cfg rnd socket q s = sendErrorAndClose socket INVALID_KEY s"
  by (cases v) (auto simp: missing_def onSocketConnection_js_def onSocketConnection_ts_def
      split: option.splits)

lemma sendErrorAndClose_full:
  "sendErrorAndClose socket e s =
     (if socket \<in> set (raising s) then Threw SocketError else Returned,
      s\<lparr>trace := trace s @ [SocketSend socket (Frame ERROR (Some (ErrMsg e))),
           SocketClose socket]\<rparr>)"
  by (simp add: sendErrorAndClose_def socket_close_def socket_send_def log_def)

text \<open>
  Claim C5. A connection attempt in which \<^verbatim>\<open>id\<close>, \<^verbatim>\<open>token\<close> or \<^verbatim>\<open>key\<close> is absent (missing
  or empty, the source's \<^verbatim>\<open>!x\<close>) is answered with the error frame for
  \<^verbatim>\<open>INVALID_WS_PARAMETERS\<close> and a close of the new socket; one in which all three are
  present but the key is not the configured key is answered with the error frame for
  \<^verbatim>\<open>INVALID_KEY\<close> and a close. In both cases these two calls are all the handler does:
  no call on the realm is made and nothing but the trace changes.
\<close>

theorem gate_rejects_without_registry:
  assumes "onSocketConnection v cfg rnd socket q s = (r, s')"
  shows "(missing (q_id q) \<or> missing (q_token q) \<or> missing (q_key q) \<longrightarrow>
            new_calls s s' = [SocketSend socket (Frame ERROR (Some (ErrMsg INVALID_WS_PARAMETERS))),
                              SocketClose socket] \<and>
            s' = s\<lparr>trace := trace s'\<rparr>) \<and>
         (\<not> missing (q_id q) \<and> \<not> missing (q_token q) \<and> \<not> missing (q_key q) \<and>
          q_key q \<noteq> Some (cfg_key cfg) \<longrightarrow>
            new_calls s s' = [SocketSend socket (Frame ERROR (Some (ErrMsg INVALID_KEY))),
                              SocketClose socket] \<and>
            s' = s\<lparr>trace := trace s'\<rparr>) \<and>
         (missing (q_id q) \<or> missing (q_token q) \<or> missing (q_key q) \<or>
          q_key q \<noteq> Some (cfg_key cfg) \<longrightarrow>
            list_all (\<lambda>c. \<not> is_realm_call c) (new_calls s s') \<and>
            realm_clients s' = realm_clients s \<and> realm_queues s' = realm_queues s \<and>
            heap s' = heap s)"
proof -
  have a: "s' = s\<lparr>trace := trace s @ [SocketSend socket (Frame ERROR (Some (ErrMsg e))),
      SocketClose socket]\<rparr>" if "onSocketConnection v cfg rnd socket q s = sendErrorAndClose socket e s" for e
    using that assms by (simp add: sendErrorAndClose_full)
  have b: ?thesis if "missing (q_id q) \<or> missing (q_token q) \<or> missing (q_key q)"
    using a [OF conn_missing [OF that]] that by (auto simp: new_calls_def)
  have c: ?thesis if "\<not> (missing (q_id q) \<or> missing (q_token q) \<or> missing (q_key q))"
      "q_key q \<noteq> Some (cfg_key cfg)"
    using a [OF conn_bad_key [of q cfg v rnd socket s]] that by (auto simp: new_calls_def)
  show ?thesis using b c by blast
qed

theorem gate_rejects_without_registry_witness:
  "onSocketConnection TS ex_cfg ''k3x9'' 1 \<lparr>q_id = Some ''B'', q_token = None, q_key = Some ''peerjs''\<rparr>
      (ex_session ''t1'') =
     (Returned, (ex_session ''t1'')\<lparr>trace := trace (ex_session ''t1'') @
        [SocketSend 1 (Frame ERROR (Some (ErrMsg INVALID_WS_PARAMETERS))), SocketClose 1]\<rparr>) \<and>
   missing (q_token \<lparr>q_id = Some ''B'', q_token = None, q_key = Some ''peerjs''\<rparr>) \<and>
   new_calls (ex_session ''t1'') ((ex_session ''t1'')\<lparr>trace := trace (ex_session ''t1'') @
        [SocketSend 1 (Frame ERROR (Some (ErrMsg INVALID_WS_PARAMETERS))), SocketClose 1]\<rparr>) =
     [SocketSend 1 (Frame ERROR (Some (ErrMsg INVALID_WS_PARAMETERS))), SocketClose 1] \<and>
   onSocketConnection JS ex_cfg [] 1 (ex_query ''B'' ''t2''\<lparr>q_key := Some ''guess''\<rparr>) (ex_session ''t1'') =
     (Returned, (ex_session ''t1'')\<lparr>trace := trace (ex_session ''t1'') @
        [SocketSend 1 (Frame ERROR (Some (ErrMsg INVALID_KEY))), SocketClose 1]\<rparr>) \<and>
   q_key (ex_query ''B'' ''t2''\<lparr>q_key := Some ''guess''\<rparr>) \<noteq> Some (cfg_key ex_cfg) \<and>
   realm_clients ((ex_session ''t1'')\<lparr>trace := trace (ex_session ''t1'') @
        [SocketSend 1 (Frame ERROR (Some (ErrMsg INVALID_KEY))), SocketClose 1]\<rparr>) = [(''A'', 0)]"
proof -
  let ?q1 = "\<lparr>q_id = Some ''B'', q_token = None, q_key = Some ''peerjs''\<rparr>"
  let ?q2 = "ex_query ''B'' ''t2''\<lparr>q_key := Some ''guess''\<rparr>"
  have r1: "onSocketConnection TS ex_cfg ''k3x9'' 1 ?q1 (ex_session ''t1'') =
     (Returned, (ex_session ''t1'')\<lparr>trace := trace (ex_session ''t1'') @
        [SocketSend 1 (Frame ERROR (Some (ErrMsg INVALID_WS_PARAMETERS))), SocketClose 1]\<rparr>)"
    by (simp add: run_defs)
  have r2: "onSocketConnection JS ex_cfg [] 1 ?q2 (ex_session ''t1'') =
     (Returned, (ex_session ''t1'')\<lparr>trace := trace (ex_session ''t1'') @
        [SocketSend 1 (Frame ERROR (Some (ErrMsg INVALID_KEY))), SocketClose 1]\<rparr>)"
    by (simp add: run_defs)
  have m: "missing (q_token ?q1)" by (simp add: missing_def)
  have k: "q_key ?q2 \<noteq> Some (cfg_key ex_cfg)" by (simp add: run_defs)
  have rc: "realm_clients (ex_session ''t1'') = [(''A'', 0)]" by (simp add: run_defs)
  show ?thesis
    using gate_rejects_without_registry [OF r1] gate_rejects_without_registry [OF r2] r1 r2 m k rc
    by simp
qed

subsection \<open>Registration\<close>

text \<open>
  Claim C6. \<^verbatim>\<open>_registerClient\<close> counts the realm's clients. At or above
  \<^verbatim>\<open>concurrent_limit\<close> it sends the error frame for \<^verbatim>\<open>CONNECTION_LIMIT_EXCEED\<close>, closes
  the socket and constructs no client. Below the limit it constructs a client with the
  given id and token, stores it in the realm under the id, sends the frame
  \<^verbatim>\<open>{ type: OPEN }\<close> on the socket, binds the socket to the client and emits
  "connection" for it, in this order.
\<close>

theorem registration_respects_limit:
  assumes "registerClient cfg socket i token s = (r, s')"
  shows "(cfg_concurrent_limit cfg \<le> int (length (realm_clients s)) \<longrightarrow>
            new_calls s s' = [RealmGetClientsIds,
              SocketSend socket (Frame ERROR (Some (ErrMsg CONNECTION_LIMIT_EXCEED))),
              SocketClose socket] \<and>
            heap s' = heap s \<and> realm_clients s' = realm_clients s \<and>
            listeners s' = listeners s) \<and>
         (int (length (realm_clients s)) < cfg_concurrent_limit cfg \<longrightarrow>
            r = Returned \<and>
            heap s' = heap s @ [\<lparr>cid = i, ctoken = token, csocket = Some socket\<rparr>] \<and>
            realm_clients s' = put i (length (heap s)) (realm_clients s) \<and>
            map_of (realm_clients s') i = Some (length (heap s)) \<and>
            listeners s' = listeners s @ [(socket, length (heap s))] \<and>
            new_calls s s' = [RealmGetClientsIds, RealmSetClient (length (heap s)) i,
              SocketSend socket (Frame OPEN None), Emit (ConnectionEv (length (heap s)))])"
proof (cases "int (length (realm_clients s)) < cfg_concurrent_limit cfg")
  case True
  from registerClient_admit [OF True, of socket i token] assms show ?thesis
    using True by (auto simp: new_calls_def map_of_put)
next
  case False
  then have "cfg_concurrent_limit cfg \<le> int (length (realm_clients s))" by simp
  from registerClient_full [OF this, of socket i token] assms show ?thesis
    using False by (auto simp: new_calls_def)
qed

theorem registration_respects_limit_witness:
  "registerClient ex_cfg 0 ''A'' ''t1'' init_state =
     (Returned,
      \<lparr>heap = [\<lparr>cid = ''A'', ctoken = ''t1'', csocket = Some 0\<rparr>],
       realm_clients = [(''A'', 0)], realm_queues = [], listeners = [(0, 0)], raising = [],
       trace = [RealmGetClientsIds, RealmSetClient 0 ''A'', SocketSend 0 (Frame OPEN None),
                Emit (ConnectionEv 0)]\<rparr>) \<and>
   int (length (realm_clients init_state)) < cfg_concurrent_limit ex_cfg \<and>
   map_of (realm_clients
      \<lparr>heap = [\<lparr>cid = ''A'', ctoken = ''t1'', csocket = Some 0\<rparr>],
       realm_clients = [(''A'', 0)], realm_queues = [], listeners = [(0, 0)], raising = [],
       trace = [RealmGetClientsIds, RealmSetClient 0 ''A'', SocketSend 0 (Frame OPEN None),
                Emit (ConnectionEv 0)]\<rparr>) ''A'' = Some (length (heap init_state)) \<and>
   registerClient ex_cfg 1 ''B'' ''t2'' (ex_session ''t1'') =
     (Returned, (ex_session ''t1'')\<lparr>trace := trace (ex_session ''t1'') @
        [RealmGetClientsIds, SocketSend 1 (Frame ERROR (Some (ErrMsg CONNECTION_LIMIT_EXCEED))),
         SocketClose 1]\<rparr>) \<and>
   cfg_concurrent_limit ex_cfg \<le> int (length (realm_clients (ex_session ''t1''))) \<and>
   heap ((ex_session ''t1'')\<lparr>trace := trace (ex_session ''t1'') @
        [RealmGetClientsIds, SocketSend 1 (Frame ERROR (Some (ErrMsg CONNECTION_LIMIT_EXCEED))),
         SocketClose 1]\<rparr>) = heap (ex_session ''t1'')"
proof -
  have r1: "registerClient ex_cfg 0 ''A'' ''t1'' init_state =
     (Returned,
      \<lparr>heap = [\<lparr>cid = ''A'', ctoken = ''t1'', csocket = Some 0\<rparr>],
       realm_clients = [(''A'', 0)], realm_queues = [], listeners = [(0, 0)], raising = [],
       trace = [RealmGetClientsIds, RealmSetClient 0 ''A'', SocketSend 0 (Frame OPEN None),
                Emit (ConnectionEv 0)]\<rparr>)"
    by (simp add: run_defs)
  have r2: "registerClient ex_cfg 1 ''B'' ''t2'' (ex_session ''t1'') =
     (Returned, (ex_session ''t1'')\<lparr>trace := trace (ex_session ''t1'') @
        [RealmGetClientsIds, SocketSend 1 (Frame ERROR (Some (ErrMsg CONNECTION_LIMIT_EXCEED))),
         SocketClose 1]\<rparr>)"
    by (simp add: run_defs)
  have l1: "int (length (realm_clients init_state)) < cfg_concurrent_limit ex_cfg"
    by (simp add: run_defs)
  have l2: "cfg_concurrent_limit ex_cfg \<le> int (length (realm_clients (ex_session ''t1'')))"
    by (simp add: run_defs)
  show ?thesis
    using registration_respects_limit [OF r1] registration_respects_limit [OF r2] r1 r2 l1 l2
    by (simp add: run_defs)
qed

subsection \<open>A second connection for a registered id\<close>

text \<open>
  Claim C4, amended. A valid attempt for an id with a registered session, whose token is
  neither the session's token nor the reconnect token, gets one frame on the new socket,
  \<^verbatim>\<open>{ type: MessageType.ID_TAKEN, payload: { msg: "ID is taken" } }\<close>, and the new socket
  is closed. The frame's \<^verbatim>\<open>type\<close> goes over the wire as the string the enum gives the
  member, which is \<^verbatim>\<open>"ID-TAKEN"\<close> under the declared values. The registered session,
  its realm entry and the socket bound to it are as before.
\<close>

theorem reject_leaves_session_untouched:
  assumes "valid_attempt cfg q i token"
    and "map_of (realm_clients s) i = Some c"
    and "token \<noteq> ctoken (heap s ! c)"
    and "token \<noteq> RECONNECT"
    and "onSocketConnection v cfg rnd socket q s = (r, s')"
  shows "new_calls s s' = [RealmGetClientById i,
            SocketSend socket (Frame ID_TAKEN (Some (Msg ''ID is taken''))),
            SocketClose socket] \<and>
         sent_on socket (new_calls s s') = [Frame ID_TAKEN (Some (Msg ''ID is taken''))] \<and>
         map (wire_type value_of) (sent_on socket (new_calls s s')) = [value_of ID_TAKEN] \<and>
         map (wire_type MessageType_declared) (sent_on socket (new_calls s s')) = [''ID-TAKEN''] \<and>
         map frame_payload (sent_on socket (new_calls s s')) = [Some (Msg ''ID is taken'')] \<and>
         heap s' = heap s \<and> heap s' ! c = heap s ! c \<and>
         realm_clients s' = realm_clients s \<and> map_of (realm_clients s') i = Some c \<and>
         csocket (heap s' ! c) = csocket (heap s ! c) \<and>
         listeners s' = listeners s \<and> realm_queues s' = realm_queues s"
  using connection_reject [OF assms(1,2,4,3), of v rnd socket] assms(2,5)
  by (auto simp: new_calls_def wire_type_def)

theorem reject_leaves_session_untouched_witness:
  "valid_attempt ex_cfg (ex_query ''A'' ''t2'') ''A'' ''t2'' \<and>
   map_of (realm_clients (ex_session ''t1'')) ''A'' = Some 0 \<and>
   ''t2'' \<noteq> ctoken (heap (ex_session ''t1'') ! 0) \<and> ''t2'' \<noteq> RECONNECT \<and>
   onSocketConnection JS ex_cfg [] 1 (ex_query ''A'' ''t2'') (ex_session ''t1'') =
     (Returned, (ex_session ''t1'')\<lparr>trace := trace (ex_session ''t1'') @
        [RealmGetClientById ''A'', SocketSend 1 (Frame ID_TAKEN (Some (Msg ''ID is taken''))),
         SocketClose 1]\<rparr>) \<and>
   map (wire_type MessageType_declared)
     (sent_on 1 (new_calls (ex_session ''t1'')
        ((ex_session ''t1'')\<lparr>trace := trace (ex_session ''t1'') @
          [RealmGetClientById ''A'', SocketSend 1 (Frame ID_TAKEN (Some (Msg ''ID is taken''))),
           SocketClose 1]\<rparr>))) = [''ID-TAKEN''] \<and>
   csocket (heap ((ex_session ''t1'')\<lparr>trace := trace (ex_session ''t1'') @
        [RealmGetClientById ''A'', SocketSend 1 (Frame ID_TAKEN (Some (Msg ''ID is taken''))),
         SocketClose 1]\<rparr>) ! 0) = Some 0"
proof -
  have va: "valid_attempt ex_cfg (ex_query ''A'' ''t2'') ''A'' ''t2''"
    by (simp add: valid_attempt_def run_defs)
  have lk: "map_of (realm_clients (ex_session ''t1'')) ''A'' = Some 0"
    by (simp add: run_defs)
  have t1: "''t2'' \<noteq> ctoken (heap (ex_session ''t1'') ! 0)" by (simp add: run_defs)
  have t2: "''t2'' \<noteq> RECONNECT" by (simp add: run_defs)
  have run: "onSocketConnection JS ex_cfg [] 1 (ex_query ''A'' ''t2'') (ex_session ''t1'') =
     (Returned, (ex_session ''t1'')\<lparr>trace := trace (ex_session ''t1'') @
        [RealmGetClientById ''A'', SocketSend 1 (Frame ID_TAKEN (Some (Msg ''ID is taken''))),
         SocketClose 1]\<rparr>)"
    by (simp add: run_defs)
  have so: "csocket (heap (ex_session ''t1'') ! 0) = Some 0" by (simp add: run_defs)
  show ?thesis
    using reject_leaves_session_untouched [OF va lk t1 t2 run] va lk t1 t2 run so
    by (simp add: run_defs)
qed

text \<open>
  Claim C4 as stated gives the frame's type as the string \<^verbatim>\<open>"ID_TAKEN"\<close>, the member's
  name. Peer \<open>A\<close> is registered with token \<open>t1\<close>; an attempt for \<open>A\<close> with token \<open>t2\<close>
  on socket 1 is rejected in both variants, and the one frame sent on socket 1 has, under
  the declared values, the type \<^verbatim>\<open>"ID-TAKEN"\<close>, which is another string.
\<close>

theorem reject_frame_type_counterexample:
  "valid_attempt ex_cfg (ex_query ''A'' ''t2'') ''A'' ''t2'' \<and>
   reachable ex_cfg (ex_session ''t1'') \<and>
   map_of (realm_clients (ex_session ''t1'')) ''A'' = Some 0 \<and>
   ctoken (heap (ex_session ''t1'') ! 0) = ''t1'' \<and>
   map (wire_type MessageType_declared)
     (sent_on 1 (new_calls (ex_session ''t1'')
        (snd (onSocketConnection TS ex_cfg ''k3x9'' 1 (ex_query ''A'' ''t2'')
           (ex_session ''t1''))))) = [''ID-TAKEN''] \<and>
   map (wire_type MessageType_declared)
     (sent_on 1 (new_calls (ex_session ''t1'')
        (snd (onSocketConnection JS ex_cfg [] 1 (ex_query ''A'' ''t2'')
           (ex_session ''t1''))))) = [''ID-TAKEN''] \<and>
   map (wire_type MessageType_declared)
     (sent_on 1 (new_calls (ex_session ''t1'')
        (snd (onSocketConnection JS ex_cfg [] 1 (ex_query ''A'' ''t2'')
           (ex_session ''t1''))))) \<noteq> [''ID_TAKEN'']"
proof -
  have "reachable ex_cfg (ex_session ''t1'')"
    unfolding ex_session_def by (rule r_connect) (rule r_init)
  then show ?thesis
    by (simp add: valid_attempt_def wire_type_def run_defs)
qed

text \<open>
  Claim C3, amended. A valid attempt for an id with a registered session, whose token is
  the session's token and is not the reconnect token, constructs no client: the registered
  client's socket becomes the new socket, no \<^verbatim>\<open>OPEN\<close> frame is sent, and "connection" is
  emitted with the registered client.
\<close>

theorem rebind_keeps_session_object:
  assumes "valid_attempt cfg q i token"
    and "map_of (realm_clients s) i = Some c"
    and "token = ctoken (heap s ! c)"
    and "token \<noteq> RECONNECT"
    and "registry_ok cfg s"
    and "onSocketConnection v cfg rnd socket q s = (r, s')"
  shows "r = Returned \<and>
         length (heap s') = length (heap s) \<and>
         heap s' = (heap s)[c := (heap s ! c)\<lparr>csocket := Some socket\<rparr>] \<and>
         csocket (heap s' ! c) = Some socket \<and>
         realm_clients s' = realm_clients s \<and>
         new_calls s s' = [RealmGetClientById i, Emit (ConnectionEv c)] \<and>
         SocketSend socket (Frame OPEN None) \<notin> set (new_calls s s')"
  using connection_rebind [OF assms(1,2,4,3), of v rnd socket] assms(6)
    registry_ok_lookup [OF assms(5,2)]
  by (auto simp: new_calls_def)

theorem rebind_keeps_session_object_witness:
  "valid_attempt ex_cfg (ex_query ''A'' ''t1'') ''A'' ''t1'' \<and>
   map_of (realm_clients (ex_session ''t1'')) ''A'' = Some 0 \<and>
   ''t1'' = ctoken (heap (ex_session ''t1'') ! 0) \<and> ''t1'' \<noteq> RECONNECT \<and>
   registry_ok ex_cfg (ex_session ''t1'') \<and>
   onSocketConnection TS ex_cfg ''k3x9'' 1 (ex_query ''A'' ''t1'') (ex_session ''t1'') =
     (Returned,
      \<lparr>heap = [\<lparr>cid = ''A'', ctoken = ''t1'', csocket = Some 1\<rparr>],
       realm_clients = [(''A'', 0)], realm_queues = [], listeners = [(0, 0), (1, 0)],
       raising = [],
       trace = [RealmGetClientById ''A'', RealmGetClientsIds, RealmSetClient 0 ''A'',
                SocketSend 0 (Frame OPEN None), Emit (ConnectionEv 0),
                RealmGetClientById ''A'', Emit (ConnectionEv 0)]\<rparr>) \<and>
   new_calls (ex_session ''t1'')
      \<lparr>heap = [\<lparr>cid = ''A'', ctoken = ''t1'', csocket = Some 1\<rparr>],
       realm_clients = [(''A'', 0)], realm_queues = [], listeners = [(0, 0), (1, 0)],
       raising = [],
       trace = [RealmGetClientById ''A'', RealmGetClientsIds, RealmSetClient 0 ''A'',
                SocketSend 0 (Frame OPEN None), Emit (ConnectionEv 0),
                RealmGetClientById ''A'', Emit (ConnectionEv 0)]\<rparr> =
     [RealmGetClientById ''A'', Emit (ConnectionEv 0)]"
proof -
  have va: "valid_attempt ex_cfg (ex_query ''A'' ''t1'') ''A'' ''t1''"
    by (simp add: valid_attempt_def run_defs)
  have lk: "map_of (realm_clients (ex_session ''t1'')) ''A'' = Some 0"
    by (simp add: run_defs)
  have t1: "''t1'' = ctoken (heap (ex_session ''t1'') ! 0)" by (simp add: run_defs)
  have t2: "''t1'' \<noteq> RECONNECT" by (simp add: run_defs)
  have ok: "registry_ok ex_cfg (ex_session ''t1'')" by (simp add: registry_ok_def run_defs)
  have run: "onSocketConnection TS ex_cfg ''k3x9'' 1 (ex_query ''A'' ''t1'') (ex_session ''t1'') =
     (Returned,
      \<lparr>heap = [\<lparr>cid = ''A'', ctoken = ''t1'', csocket = Some 1\<rparr>],
       realm_clients = [(''A'', 0)], realm_queues = [], listeners = [(0, 0), (1, 0)],
       raising = [],
       trace = [RealmGetClientById ''A'', RealmGetClientsIds, RealmSetClient 0 ''A'',
                SocketSend 0 (Frame OPEN None), Emit (ConnectionEv 0),
                RealmGetClientById ''A'', Emit (ConnectionEv 0)]\<rparr>)"
    by (simp add: run_defs)
  show ?thesis
    using rebind_keeps_session_object [OF va lk t1 t2 ok run] va lk t1 t2 ok run
    by (simp add: run_defs)
qed

text \<open>
  Claim C3 as stated, without the exception for the reconnect token, fails. Peer \<open>A\<close>
  first connects with the token \<^verbatim>\<open>__RECONNECT__\<close>, which is stored as its token. A second
  attempt presents the same token: it equals the stored one, yet a second client object
  is constructed, the first client's socket is set to null instead of the new socket, and
  an \<^verbatim>\<open>OPEN\<close> frame is sent on the new socket.
\<close>

theorem rebind_on_equal_token_counterexample:
  "valid_attempt ex_cfg (ex_query ''A'' RECONNECT) ''A'' RECONNECT \<and>
   reachable ex_cfg (ex_session RECONNECT) \<and>
   map_of (realm_clients (ex_session RECONNECT)) ''A'' = Some 0 \<and>
   ctoken (heap (ex_session RECONNECT) ! 0) = RECONNECT \<and>
   length (heap (ex_session RECONNECT)) = 1 \<and>
   length (heap (snd (onSocketConnection TS ex_cfg ''k3x9'' 1 (ex_query ''A'' RECONNECT)
      (ex_session RECONNECT)))) = 2 \<and>
   csocket (heap (snd (onSocketConnection TS ex_cfg ''k3x9'' 1 (ex_query ''A'' RECONNECT)
      (ex_session RECONNECT))) ! 0) = None \<and>
   SocketSend 1 (Frame OPEN None) \<in> set (new_calls (ex_session RECONNECT)
      (snd (onSocketConnection TS ex_cfg ''k3x9'' 1 (ex_query ''A'' RECONNECT)
      (ex_session RECONNECT))))"
proof -
  have "reachable ex_cfg (ex_session RECONNECT)"
    unfolding ex_session_def by (rule r_connect) (rule r_init)
  then show ?thesis
    by (simp add: valid_attempt_def run_defs)
qed

subsection \<open>The listeners\<close>

text \<open>
  Claim C7. On a "message" event of a socket bound to a client: if the payload parses to
  an object (or an array), its \<^verbatim>\<open>src\<close> becomes the client's id, whatever \<^verbatim>\<open>src\<close> the
  sender supplied, the other properties are kept, and "message" is emitted with the client
  and the message; if \<^verbatim>\<open>JSON.parse\<close> throws, "error" is emitted. (A payload that parses
  to \<^verbatim>\<open>null\<close> or to a primitive value also ends in "error".) In every case nothing but
  the trace changes: the realm and the clients are as before and no socket is closed.
\<close>

theorem relay_overwrites_src:
  "(\<forall>kvs. JSON_parse data = Some (JObj kvs) \<longrightarrow>
      new_calls s (message_listener JSON_parse socket c data s) =
        [Emit (MessageEv c (ObjMessage (put ''src'' (JStr (cid (heap s ! c))) kvs)))] \<and>
      map_of (put ''src'' (JStr (cid (heap s ! c))) kvs) ''src'' = Some (JStr (cid (heap s ! c))) \<and>
      (\<forall>k. k \<noteq> ''src'' \<longrightarrow>
         map_of (put ''src'' (JStr (cid (heap s ! c))) kvs) k = map_of kvs k)) \<and>
   (\<forall>xs. JSON_parse data = Some (JArr xs) \<longrightarrow>
      new_calls s (message_listener JSON_parse socket c data s) =
        [Emit (MessageEv c (ArrMessage xs (cid (heap s ! c))))]) \<and>
   (JSON_parse data = None \<longrightarrow>
      new_calls s (message_listener JSON_parse socket c data s) = [Emit (ErrorEv SyntaxError)]) \<and>
   (\<forall>j. JSON_parse data = Some j \<and> (\<forall>kvs. j \<noteq> JObj kvs) \<and> (\<forall>xs. j \<noteq> JArr xs) \<longrightarrow>
      new_calls s (message_listener JSON_parse socket c data s) = [Emit (ErrorEv TypeError)]) \<and>
   message_listener JSON_parse socket c data s =
     s\<lparr>trace := trace (message_listener JSON_parse socket c data s)\<rparr> \<and>
   realm_clients (message_listener JSON_parse socket c data s) = realm_clients s \<and>
   heap (message_listener JSON_parse socket c data s) = heap s \<and>
   list_all (\<lambda>x. \<not> is_socket_close x)
     (new_calls s (message_listener JSON_parse socket c data s))"
proof -
  have "\<exists>e. message_listener JSON_parse socket c data s = s\<lparr>trace := trace s @ [Emit e]\<rparr>"
    using message_listener_state [of JSON_parse socket c data s] by (simp add: emit_def log_def)
  then obtain e where e: "message_listener JSON_parse socket c data s = s\<lparr>trace := trace s @ [Emit e]\<rparr>"
    by blast
  have frame: "message_listener JSON_parse socket c data s =
     s\<lparr>trace := trace (message_listener JSON_parse socket c data s)\<rparr> \<and>
   realm_clients (message_listener JSON_parse socket c data s) = realm_clients s \<and>
   heap (message_listener JSON_parse socket c data s) = heap s \<and>
   list_all (\<lambda>x. \<not> is_socket_close x)
     (new_calls s (message_listener JSON_parse socket c data s))"
    by (simp add: e new_calls_def)
  have obj: "new_calls s (message_listener JSON_parse socket c data s) =
        [Emit (MessageEv c (ObjMessage (put ''src'' (JStr (cid (heap s ! c))) kvs)))]"
    if "JSON_parse data = Some (JObj kvs)" for kvs
    using that by (simp add: message_listener_def new_calls_def emit_def log_def client_getId_def)
  have arr: "new_calls s (message_listener JSON_parse socket c data s) =
        [Emit (MessageEv c (ArrMessage xs (cid (heap s ! c))))]"
    if "JSON_parse data = Some (JArr xs)" for xs
    using that by (simp add: message_listener_def new_calls_def emit_def log_def client_getId_def)
  have syn: "new_calls s (message_listener JSON_parse socket c data s) = [Emit (ErrorEv SyntaxError)]"
    if "JSON_parse data = None"
    using that by (simp add: message_listener_def new_calls_def emit_def log_def)
  have prim: "new_calls s (message_listener JSON_parse socket c data s) = [Emit (ErrorEv TypeError)]"
    if "JSON_parse data = Some j" "\<forall>kvs. j \<noteq> JObj kvs" "\<forall>xs. j \<noteq> JArr xs" for j
    using that by (cases j) (simp_all add: message_listener_def new_calls_def emit_def log_def)
  show ?thesis
    using frame obj arr syn prim by (simp add: map_of_put)
qed

theorem relay_overwrites_src_witness:
  \<open>ex_parse ''{"src":"forged","foo":1}'' = Some (JObj [(''src'', JStr ''forged''), (''foo'', JNum 1)]) \<and>
   new_calls (ex_session ''t1'')
     (message_listener ex_parse 0 0 ''{"src":"forged","foo":1}'' (ex_session ''t1'')) =
     [Emit (MessageEv 0 (ObjMessage [(''src'', JStr ''A''), (''foo'', JNum 1)]))] \<and>
   ex_parse ''{"src":'' = None \<and>
   new_calls (ex_session ''t1'') (message_listener ex_parse 0 0 ''{"src":'' (ex_session ''t1'')) =
     [Emit (ErrorEv SyntaxError)] \<and>
   ex_parse ''null'' = Some JNull \<and>
   new_calls (ex_session ''t1'') (message_listener ex_parse 0 0 ''null'' (ex_session ''t1'')) =
     [Emit (ErrorEv TypeError)] \<and>
   realm_clients (message_listener ex_parse 0 0 ''{"src":'' (ex_session ''t1'')) = [(''A'', 0)]\<close>
proof -
  have p1: \<open>ex_parse ''{"src":"forged","foo":1}'' =
      Some (JObj [(''src'', JStr ''forged''), (''foo'', JNum 1)])\<close>
    by (simp add: ex_parse_def)
  have p2: \<open>ex_parse ''{"src":'' = None\<close> by (simp add: ex_parse_def)
  have p3: \<open>ex_parse ''null'' = Some JNull\<close> by (simp add: ex_parse_def)
  show ?thesis
    using relay_overwrites_src [of ex_parse \<open>''{"src":"forged","foo":1}''\<close> "ex_session ''t1''" 0 0]
      relay_overwrites_src [of ex_parse \<open>''{"src":''\<close> "ex_session ''t1''" 0 0]
      relay_overwrites_src [of ex_parse "''null''" "ex_session ''t1''" 0 0]
      p1 p2 p3
    by (simp add: run_defs)
qed

lemma close_listener_bound:
  "csocket (heap s ! c) = Some socket \<Longrightarrow>
   close_listener socket c s =
     s\<lparr>realm_clients := del (cid (heap s ! c)) (realm_clients s),
       trace := trace s @ [RealmRemoveClientById (cid (heap s ! c)), Emit (CloseEv c)]\<rparr>"
  by (simp add: close_listener_def client_getSocket_def client_getId_def emit_def
      realm_removeClientById_def log_def)

lemma close_listener_stale:
  "csocket (heap s ! c) \<noteq> Some socket \<Longrightarrow> close_listener socket c s = s"
  by (simp add: close_listener_def client_getSocket_def)

lemma not_registered_after_del:
  assumes "registry_ok cfg s"
  shows "c \<notin> snd ` set (del (cid (heap s ! c)) (realm_clients s))"
proof
  assume "c \<in> snd ` set (del (cid (heap s ! c)) (realm_clients s))"
  then obtain k where k: "(k, c) \<in> set (del (cid (heap s ! c)) (realm_clients s))" by auto
  then have "(k, c) \<in> set (realm_clients s)" "k \<noteq> cid (heap s ! c)"
    by (simp_all add: in_set_del)
  with assms show False unfolding registry_ok_iff by blast
qed

text \<open>
  Claim C8. On a "close" event of a socket that was bound to a client: if the client's
  current socket is this socket, the realm entry under the client's id is removed, the
  client is registered nowhere afterwards, and "close" is emitted once with the client; if
  the client's current socket is another one (or null), nothing happens at all.
\<close>

theorem close_removes_only_current:
  "(csocket (heap s ! c) = Some socket \<longrightarrow>
      map_of (realm_clients (close_listener socket c s)) (cid (heap s ! c)) = None \<and>
      (registry_ok cfg s \<longrightarrow> c \<notin> snd ` set (realm_clients (close_listener socket c s))) \<and>
      new_calls s (close_listener socket c s) =
        [RealmRemoveClientById (cid (heap s ! c)), Emit (CloseEv c)] \<and>
      count_list (new_calls s (close_listener socket c s)) (Emit (CloseEv c)) = 1) \<and>
   (csocket (heap s ! c) \<noteq> Some socket \<longrightarrow>
      close_listener socket c s = s \<and> new_calls s (close_listener socket c s) = [])"
  using not_registered_after_del [of cfg s c]
  by (auto simp: close_listener_bound close_listener_stale new_calls_def map_of_del)

theorem close_removes_only_current_witness:
  "csocket (heap (ex_session ''t1'') ! 0) = Some 0 \<and>
   registry_ok ex_cfg (ex_session ''t1'') \<and>
   realm_clients (close_listener 0 0 (ex_session ''t1'')) = [] \<and>
   new_calls (ex_session ''t1'') (close_listener 0 0 (ex_session ''t1'')) =
     [RealmRemoveClientById ''A'', Emit (CloseEv 0)] \<and>
   csocket (heap (snd (onSocketConnection TS ex_cfg ''k3x9'' 1 (ex_query ''A'' ''t1'')
      (ex_session ''t1''))) ! 0) = Some 1 \<and>
   close_listener 0 0 (snd (onSocketConnection TS ex_cfg ''k3x9'' 1 (ex_query ''A'' ''t1'')
      (ex_session ''t1''))) =
     snd (onSocketConnection TS ex_cfg ''k3x9'' 1 (ex_query ''A'' ''t1'') (ex_session ''t1'')) \<and>
   realm_clients (close_listener 0 0 (snd (onSocketConnection TS ex_cfg ''k3x9'' 1
      (ex_query ''A'' ''t1'') (ex_session ''t1'')))) = [(''A'', 0)]"
proof -
  have b: "csocket (heap (ex_session ''t1'') ! 0) = Some 0" by (simp add: run_defs)
  have ok: "registry_ok ex_cfg (ex_session ''t1'')" by (simp add: registry_ok_def run_defs)
  have st: "csocket (heap (snd (onSocketConnection TS ex_cfg ''k3x9'' 1 (ex_query ''A'' ''t1'')
      (ex_session ''t1''))) ! 0) = Some 1"
    by (simp add: run_defs)
  show ?thesis
    using close_removes_only_current [of "ex_session ''t1''" 0 0 ex_cfg]
      close_removes_only_current [of "snd (onSocketConnection TS ex_cfg ''k3x9'' 1
        (ex_query ''A'' ''t1'') (ex_session ''t1''))" 0 0 ex_cfg] b ok st
    by (simp add: run_defs)
qed

subsection \<open>Eviction and re-registration\<close>

lemma close_outcome_log [simp]: "close_outcome c (log x s) = close_outcome c s"
  by (simp add: close_outcome_def log_def split: option.splits)

lemma evict_calls_log [simp]: "evict_calls cfg c i (log x s) = evict_calls cfg c i s"
  by (simp add: evict_calls_def log_def split: option.splits)

lemma close_outcome_cases: "close_outcome c s = Returned \<or> close_outcome c s = Threw SocketError"
  by (simp add: close_outcome_def split: option.splits)

lemma evict_path_threw:
  assumes "valid_attempt cfg q i RECONNECT" "map_of (realm_clients s) i = Some c"
    "close_outcome c s \<noteq> Returned"
  shows "onSocketConnection v cfg rnd socket q s =
     (Threw SocketError,
      s\<lparr>heap := (heap s)[c := (heap s ! c)\<lparr>csocket := None\<rparr>],
        realm_clients := del i (realm_clients s),
        realm_queues := del i (realm_queues s),
        trace := trace s @ RealmGetClientById i # evict_calls cfg c i s\<rparr>)"
proof -
  have "close_outcome c s = Threw SocketError"
    using assms(3) close_outcome_cases [of c s] by simp
  then show ?thesis
    by (simp add: connection_evict [OF assms(1,2)] evict_full) (simp add: log_def)
qed

lemma evict_path_returned:
  assumes "valid_attempt cfg q i RECONNECT" "map_of (realm_clients s) i = Some c"
    "close_outcome c s = Returned"
    "int (length (del i (realm_clients s))) < cfg_concurrent_limit cfg"
  shows "onSocketConnection v cfg rnd socket q s =
     (Returned,
      s\<lparr>heap := (heap s)[c := (heap s ! c)\<lparr>csocket := None\<rparr>] @
           [\<lparr>cid = i, ctoken = (case v of JS \<Rightarrow> RECONNECT | TS \<Rightarrow> rnd), csocket = Some socket\<rparr>],
        realm_clients := del i (realm_clients s) @ [(i, length (heap s))],
        realm_queues := del i (realm_queues s),
        listeners := listeners s @ [(socket, length (heap s))],
        trace := trace s @ RealmGetClientById i # evict_calls cfg c i s @
          [RealmGetClientsIds, RealmSetClient (length (heap s)) i,
           SocketSend socket (Frame OPEN None), Emit (ConnectionEv (length (heap s)))]\<rparr>)"
proof -
  let ?s2 = "s\<lparr>heap := (heap s)[c := (heap s ! c)\<lparr>csocket := None\<rparr>],
        realm_clients := del i (realm_clients s),
        realm_queues := del i (realm_queues s),
        trace := trace s @ RealmGetClientById i # evict_calls cfg c i s\<rparr>"
  have ev: "evict cfg c i (log (RealmGetClientById i) s) = (Returned, ?s2)"
    using assms(3) by (simp add: evict_full) (simp add: log_def)
  have "map_of (del i (realm_clients s)) i = None" by (simp add: map_of_del)
  then have p: "put i n (del i (realm_clients s)) = del i (realm_clients s) @ [(i, n)]" for n
    by (rule put_absent)
  have lim: "int (length (realm_clients ?s2)) < cfg_concurrent_limit cfg"
    using assms(4) by simp
  show ?thesis
    by (simp add: connection_evict [OF assms(1,2)] ev registerClient_admit [OF lim] p)
qed

lemma below_limit_after_evict:
  assumes "registry_ok cfg s" "map_of (realm_clients s) i = Some c"
  shows "int (length (del i (realm_clients s))) < cfg_concurrent_limit cfg"
proof -
  have "realm_clients s \<noteq> []" using assms(2) by auto
  then have "int (length (realm_clients s)) \<le> cfg_concurrent_limit cfg"
    using assms(1) by (simp add: registry_ok_def)
  moreover have "length (del i (realm_clients s)) < length (realm_clients s)"
    using assms(2) by (rule length_del_less)
  ultimately show ?thesis by linarith
qed

lemma count_evict_calls:
  "count_list (evict_calls cfg c i s) (OnClose c) = (if cfg_onClose cfg then 1 else 0)"
  by (simp add: evict_calls_def split: option.splits)

text \<open>
  Claim C1, amended. A valid attempt with the token \<^verbatim>\<open>__RECONNECT__\<close> for an id with a
  registered client \<open>c\<close>, in a state as the server can reach: after the realm lookup the
  handler makes exactly the calls of the eviction block (the close of the old socket if
  the client has one, \<^verbatim>\<open>clearMessageQueue\<close>, \<^verbatim>\<open>removeClientById\<close>, \<^verbatim>\<open>onClose\<close> if it
  was supplied), whether or not the close throws. Afterwards the id has no message queue,
  \<open>c\<close> is not registered, its socket is null and \<^verbatim>\<open>onClose\<close> was called once with
  \<open>c\<close>. If the close returned, a new client, distinct from \<open>c\<close>, is then registered under
  the id, bound to the new socket, and "connection" is emitted for it. If the close threw,
  the handler ends with that exception: no client is registered under the id and nothing
  more is called.
\<close>

theorem eviction_completes:
  assumes "valid_attempt cfg q i RECONNECT"
    and "map_of (realm_clients s) i = Some c"
    and "registry_ok cfg s"
    and "onSocketConnection v cfg rnd socket q s = (r, s')"
  shows "take (Suc (length (evict_calls cfg c i s))) (new_calls s s') =
           RealmGetClientById i # evict_calls cfg c i s \<and>
         map_of (realm_queues s') i = None \<and>
         c \<notin> snd ` set (realm_clients s') \<and>
         csocket (heap s' ! c) = None \<and>
         count_list (new_calls s s') (OnClose c) = (if cfg_onClose cfg then 1 else 0) \<and>
         (close_outcome c s = Returned \<longrightarrow>
            r = Returned \<and>
            map_of (realm_clients s') i = Some (length (heap s)) \<and>
            length (heap s) \<noteq> c \<and>
            heap s' ! length (heap s) =
              \<lparr>cid = i, ctoken = (case v of JS \<Rightarrow> RECONNECT | TS \<Rightarrow> rnd),
               csocket = Some socket\<rparr> \<and>
            drop (Suc (length (evict_calls cfg c i s))) (new_calls s s') =
              [RealmGetClientsIds, RealmSetClient (length (heap s)) i,
               SocketSend socket (Frame OPEN None), Emit (ConnectionEv (length (heap s)))]) \<and>
         (close_outcome c s \<noteq> Returned \<longrightarrow>
            r = Threw SocketError \<and>
            map_of (realm_clients s') i = None \<and>
            length (heap s') = length (heap s) \<and>
            new_calls s s' = RealmGetClientById i # evict_calls cfg c i s)"
proof -
  note look = registry_ok_lookup [OF assms(3,2)]
  have gone: "c \<notin> snd ` set (del i (realm_clients s))"
    using not_registered_after_del [OF assms(3), of c] look by simp
  show ?thesis
  proof (cases "close_outcome c s = Returned")
    case True
    have s': "s' = s\<lparr>heap := (heap s)[c := (heap s ! c)\<lparr>csocket := None\<rparr>] @
           [\<lparr>cid = i, ctoken = (case v of JS \<Rightarrow> RECONNECT | TS \<Rightarrow> rnd), csocket = Some socket\<rparr>],
        realm_clients := del i (realm_clients s) @ [(i, length (heap s))],
        realm_queues := del i (realm_queues s),
        listeners := listeners s @ [(socket, length (heap s))],
        trace := trace s @ RealmGetClientById i # evict_calls cfg c i s @
          [RealmGetClientsIds, RealmSetClient (length (heap s)) i,
           SocketSend socket (Frame OPEN None), Emit (ConnectionEv (length (heap s)))]\<rparr>"
      and r: "r = Returned"
      using evict_path_returned [OF assms(1,2) True below_limit_after_evict [OF assms(3,2)],
          of v rnd socket] assms(4) by simp_all
    show ?thesis
      using True look gone
      by (simp add: s' r new_calls_def map_of_del map_add_def nth_append count_evict_calls)
  next
    case False
    have s': "s' = s\<lparr>heap := (heap s)[c := (heap s ! c)\<lparr>csocket := None\<rparr>],
        realm_clients := del i (realm_clients s),
        realm_queues := del i (realm_queues s),
        trace := trace s @ RealmGetClientById i # evict_calls cfg c i s\<rparr>"
      and r: "r = Threw SocketError"
      using evict_path_threw [OF assms(1,2) False, of v rnd socket] assms(4) by simp_all
    show ?thesis
      using False look gone
      by (simp add: s' r new_calls_def map_of_del count_evict_calls)
  qed
qed

theorem eviction_completes_witness:
  "valid_attempt ex_cfg (ex_query ''A'' RECONNECT) ''A'' RECONNECT \<and>
   map_of (realm_clients (ex_session ''t1'')) ''A'' = Some 0 \<and>
   registry_ok ex_cfg (ex_session ''t1'') \<and>
   close_outcome 0 (ex_session ''t1'') = Returned \<and>
   onSocketConnection TS ex_cfg ''k3x9'' 1 (ex_query ''A'' RECONNECT) (ex_session ''t1'') =
     (Returned,
      \<lparr>heap = [\<lparr>cid = ''A'', ctoken = ''t1'', csocket = None\<rparr>,
               \<lparr>cid = ''A'', ctoken = ''k3x9'', csocket = Some 1\<rparr>],
       realm_clients = [(''A'', 1)], realm_queues = [], listeners = [(0, 0), (1, 1)],
       raising = [],
       trace = [RealmGetClientById ''A'', RealmGetClientsIds, RealmSetClient 0 ''A'',
                SocketSend 0 (Frame OPEN None), Emit (ConnectionEv 0),
                RealmGetClientById ''A'', SocketClose 0, RealmClearMessageQueue ''A'',
                RealmRemoveClientById ''A'', OnClose 0, RealmGetClientsIds,
                RealmSetClient 1 ''A'', SocketSend 1 (Frame OPEN None),
                Emit (ConnectionEv 1)]\<rparr>) \<and>
   registry_ok ex_cfg ((ex_session ''t1'')\<lparr>raising := [0]\<rparr>) \<and>
   close_outcome 0 ((ex_session ''t1'')\<lparr>raising := [0]\<rparr>) \<noteq> Returned \<and>
   onSocketConnection TS ex_cfg ''k3x9'' 1 (ex_query ''A'' RECONNECT)
      ((ex_session ''t1'')\<lparr>raising := [0]\<rparr>) =
     (Threw SocketError,
      \<lparr>heap = [\<lparr>cid = ''A'', ctoken = ''t1'', csocket = None\<rparr>],
       realm_clients = [], realm_queues = [], listeners = [(0, 0)], raising = [0],
       trace = [RealmGetClientById ''A'', RealmGetClientsIds, RealmSetClient 0 ''A'',
                SocketSend 0 (Frame OPEN None), Emit (ConnectionEv 0),
                RealmGetClientById ''A'', SocketClose 0, RealmClearMessageQueue ''A'',
                RealmRemoveClientById ''A'', OnClose 0]\<rparr>)"
proof -
  have va: "valid_attempt ex_cfg (ex_query ''A'' RECONNECT) ''A'' RECONNECT"
    by (simp add: valid_attempt_def run_defs)
  have lk: "map_of (realm_clients (ex_session ''t1'')) ''A'' = Some 0"
    by (simp add: run_defs)
  have lk': "map_of (realm_clients ((ex_session ''t1'')\<lparr>raising := [0]\<rparr>)) ''A'' = Some 0"
    by (simp add: run_defs)
  have ok: "registry_ok ex_cfg (ex_session ''t1'')"
    by (simp add: registry_ok_def run_defs)
  have ok': "registry_ok ex_cfg ((ex_session ''t1'')\<lparr>raising := [0]\<rparr>)"
    by (simp add: registry_ok_def run_defs)
  have co: "close_outcome 0 (ex_session ''t1'') = Returned"
    by (simp add: close_outcome_def run_defs)
  have co': "close_outcome 0 ((ex_session ''t1'')\<lparr>raising := [0]\<rparr>) \<noteq> Returned"
    by (simp add: close_outcome_def run_defs)
  have run: "onSocketConnection TS ex_cfg ''k3x9'' 1 (ex_query ''A'' RECONNECT) (ex_session ''t1'') =
     (Returned,
      \<lparr>heap = [\<lparr>cid = ''A'', ctoken = ''t1'', csocket = None\<rparr>,
               \<lparr>cid = ''A'', ctoken = ''k3x9'', csocket = Some 1\<rparr>],
       realm_clients = [(''A'', 1)], realm_queues = [], listeners = [(0, 0), (1, 1)],
       raising = [],
       trace = [RealmGetClientById ''A'', RealmGetClientsIds, RealmSetClient 0 ''A'',
                SocketSend 0 (Frame OPEN None), Emit (ConnectionEv 0),
                RealmGetClientById ''A'', SocketClose 0, RealmClearMessageQueue ''A'',
                RealmRemoveClientById ''A'', OnClose 0, RealmGetClientsIds,
                RealmSetClient 1 ''A'', SocketSend 1 (Frame OPEN None),
                Emit (ConnectionEv 1)]\<rparr>)"
    by (simp add: run_defs)
  have run': "onSocketConnection TS ex_cfg ''k3x9'' 1 (ex_query ''A'' RECONNECT)
      ((ex_session ''t1'')\<lparr>raising := [0]\<rparr>) =
     (Threw SocketError,
      \<lparr>heap = [\<lparr>cid = ''A'', ctoken = ''t1'', csocket = None\<rparr>],
       realm_clients = [], realm_queues = [], listeners = [(0, 0)], raising = [0],
       trace = [RealmGetClientById ''A'', RealmGetClientsIds, RealmSetClient 0 ''A'',
                SocketSend 0 (Frame OPEN None), Emit (ConnectionEv 0),
                RealmGetClientById ''A'', SocketClose 0, RealmClearMessageQueue ''A'',
                RealmRemoveClientById ''A'', OnClose 0]\<rparr>)"
    by (simp add: run_defs)
  show ?thesis
    using eviction_completes [OF va lk ok run] eviction_completes [OF va lk' ok' run']
      va lk ok co ok' co' run run'
    by simp
qed

text \<open>
  Claim C1 as stated promises the new registration also when the close throws. Peer \<open>A\<close>
  is registered on socket 0, whose \<^verbatim>\<open>close()\<close> throws. A reconnect attempt for \<open>A\<close> on
  socket 1 runs the eviction block and then ends with the exception, in both variants:
  the realm has no client for \<open>A\<close>, no \<^verbatim>\<open>setClient\<close> and no "connection" follow.
\<close>

theorem eviction_then_register_counterexample:
  "valid_attempt ex_cfg (ex_query ''A'' RECONNECT) ''A'' RECONNECT \<and>
   reachable ex_cfg ((ex_session ''t1'')\<lparr>raising := [0]\<rparr>) \<and>
   map_of (realm_clients ((ex_session ''t1'')\<lparr>raising := [0]\<rparr>)) ''A'' = Some 0 \<and>
   fst (onSocketConnection TS ex_cfg ''k3x9'' 1 (ex_query ''A'' RECONNECT)
      ((ex_session ''t1'')\<lparr>raising := [0]\<rparr>)) = Threw SocketError \<and>
   map_of (realm_clients (snd (onSocketConnection TS ex_cfg ''k3x9'' 1 (ex_query ''A'' RECONNECT)
      ((ex_session ''t1'')\<lparr>raising := [0]\<rparr>)))) ''A'' = None \<and>
   new_calls ((ex_session ''t1'')\<lparr>raising := [0]\<rparr>)
     (snd (onSocketConnection TS ex_cfg ''k3x9'' 1 (ex_query ''A'' RECONNECT)
        ((ex_session ''t1'')\<lparr>raising := [0]\<rparr>))) =
     [RealmGetClientById ''A'', SocketClose 0, RealmClearMessageQueue ''A'',
      RealmRemoveClientById ''A'', OnClose 0] \<and>
   fst (onSocketConnection JS ex_cfg [] 1 (ex_query ''A'' RECONNECT)
      ((ex_session ''t1'')\<lparr>raising := [0]\<rparr>)) = Threw SocketError \<and>
   realm_clients (snd (onSocketConnection JS ex_cfg [] 1 (ex_query ''A'' RECONNECT)
      ((ex_session ''t1'')\<lparr>raising := [0]\<rparr>))) = []"
proof -
  have "reachable ex_cfg (ex_session ''t1'')"
    unfolding ex_session_def by (rule r_connect) (rule r_init)
  then have "reachable ex_cfg ((ex_session ''t1'')\<lparr>raising := [0]\<rparr>)"
    by (rule r_raising)
  then show ?thesis
    by (simp add: valid_attempt_def run_defs)
qed

subsection \<open>The reconnect token on a free id\<close>

lemma register_path_admit:
  assumes "valid_attempt cfg q i token" "map_of (realm_clients s) i = None"
    "int (length (realm_clients s)) < cfg_concurrent_limit cfg"
  shows "onSocketConnection v cfg rnd socket q s =
     (Returned,
      s\<lparr>heap := heap s @ [\<lparr>cid = i, ctoken = token, csocket = Some socket\<rparr>],
        realm_clients := realm_clients s @ [(i, length (heap s))],
        listeners := listeners s @ [(socket, length (heap s))],
        trace := trace s @ [RealmGetClientById i, RealmGetClientsIds,
           RealmSetClient (length (heap s)) i, SocketSend socket (Frame OPEN None),
           Emit (ConnectionEv (length (heap s)))]\<rparr>)"
proof -
  have lim: "int (length (realm_clients (log (RealmGetClientById i) s))) < cfg_concurrent_limit cfg"
    using assms(3) by (simp add: log_def)
  show ?thesis
    by (simp add: connection_register [OF assms(1,2)] registerClient_admit [OF lim]
        put_absent [OF assms(2)]) (simp add: log_def put_absent [OF assms(2)])
qed

lemma register_path_full:
  assumes "valid_attempt cfg q i token" "map_of (realm_clients s) i = None"
    "cfg_concurrent_limit cfg \<le> int (length (realm_clients s))"
  shows "onSocketConnection v cfg rnd socket q s =
     (if socket \<in> set (raising s) then Threw SocketError else Returned,
      s\<lparr>trace := trace s @ [RealmGetClientById i, RealmGetClientsIds,
           SocketSend socket (Frame ERROR (Some (ErrMsg CONNECTION_LIMIT_EXCEED))),
           SocketClose socket]\<rparr>)"
proof -
  have lim: "cfg_concurrent_limit cfg \<le> int (length (realm_clients (log (RealmGetClientById i) s)))"
    using assms(3) by (simp add: log_def)
  show ?thesis
    by (simp add: connection_register [OF assms(1,2)] registerClient_full [OF lim])
       (simp add: log_def)
qed

lemma evict_calls_no_emit: "Emit e \<notin> set (evict_calls cfg c i s)"
  by (simp add: evict_calls_def split: option.splits)

text \<open>
  Claim C10, amended. A valid attempt with the token \<^verbatim>\<open>__RECONNECT__\<close> for an id without
  a registered session, while the realm is below \<^verbatim>\<open>concurrent_limit\<close>, registers a client
  whose token is the literal \<^verbatim>\<open>__RECONNECT__\<close>, in both variants. Any later attempt with
  the same id and token, made in whatever state the server has reached while a client
  \<open>c\<close> is registered under the id, and handled by either variant, evicts \<open>c\<close> instead of
  rebinding it, whatever token \<open>c\<close> has stored: the old socket is closed, queue and realm
  entry are removed, \<^verbatim>\<open>onClose\<close> is called, the socket of \<open>c\<close> is null and not the new
  socket, and no "connection" is emitted for \<open>c\<close>; when the close returns, another client
  is registered under the id.
\<close>

theorem sentinel_token_is_stored:
  assumes "valid_attempt cfg q i RECONNECT"
  shows "(map_of (realm_clients s) i = None \<and>
          int (length (realm_clients s)) < cfg_concurrent_limit cfg \<longrightarrow>
            fst (onSocketConnection v cfg rnd socket q s) = Returned \<and>
            map_of (realm_clients (snd (onSocketConnection v cfg rnd socket q s))) i =
              Some (length (heap s)) \<and>
            heap (snd (onSocketConnection v cfg rnd socket q s)) ! length (heap s) =
              \<lparr>cid = i, ctoken = RECONNECT, csocket = Some socket\<rparr>) \<and>
         (registry_ok cfg t \<and> map_of (realm_clients t) i = Some c \<longrightarrow>
            take (Suc (length (evict_calls cfg c i t)))
                (new_calls t (snd (onSocketConnection v' cfg rnd' socket' q t))) =
              RealmGetClientById i # evict_calls cfg c i t \<and>
            RealmRemoveClientById i \<in>
              set (new_calls t (snd (onSocketConnection v' cfg rnd' socket' q t))) \<and>
            Emit (ConnectionEv c) \<notin>
              set (new_calls t (snd (onSocketConnection v' cfg rnd' socket' q t))) \<and>
            csocket (heap (snd (onSocketConnection v' cfg rnd' socket' q t)) ! c) = None \<and>
            c \<notin> snd ` set (realm_clients (snd (onSocketConnection v' cfg rnd' socket' q t))) \<and>
            (close_outcome c t = Returned \<longrightarrow>
               fst (onSocketConnection v' cfg rnd' socket' q t) = Returned \<and>
               length (heap t) \<noteq> c \<and>
               map_of (realm_clients (snd (onSocketConnection v' cfg rnd' socket' q t))) i =
                 Some (length (heap t)) \<and>
               heap (snd (onSocketConnection v' cfg rnd' socket' q t)) ! length (heap t) =
                 \<lparr>cid = i, ctoken = (case v' of JS \<Rightarrow> RECONNECT | TS \<Rightarrow> rnd'),
                  csocket = Some socket'\<rparr>) \<and>
            (close_outcome c t \<noteq> Returned \<longrightarrow>
               fst (onSocketConnection v' cfg rnd' socket' q t) = Threw SocketError \<and>
               map_of (realm_clients (snd (onSocketConnection v' cfg rnd' socket' q t))) i =
                 None))"
proof -
  have first: "fst (onSocketConnection v cfg rnd socket q s) = Returned \<and>
            map_of (realm_clients (snd (onSocketConnection v cfg rnd socket q s))) i =
              Some (length (heap s)) \<and>
            heap (snd (onSocketConnection v cfg rnd socket q s)) ! length (heap s) =
              \<lparr>cid = i, ctoken = RECONNECT, csocket = Some socket\<rparr>"
    if none: "map_of (realm_clients s) i = None"
      and lim: "int (length (realm_clients s)) < cfg_concurrent_limit cfg"
    by (simp add: register_path_admit [OF assms none lim] map_add_def none)
  have later: "take (Suc (length (evict_calls cfg c i t)))
                (new_calls t (snd (onSocketConnection v' cfg rnd' socket' q t))) =
              RealmGetClientById i # evict_calls cfg c i t \<and>
            RealmRemoveClientById i \<in>
              set (new_calls t (snd (onSocketConnection v' cfg rnd' socket' q t))) \<and>
            Emit (ConnectionEv c) \<notin>
              set (new_calls t (snd (onSocketConnection v' cfg rnd' socket' q t))) \<and>
            csocket (heap (snd (onSocketConnection v' cfg rnd' socket' q t)) ! c) = None \<and>
            c \<notin> snd ` set (realm_clients (snd (onSocketConnection v' cfg rnd' socket' q t))) \<and>
            (close_outcome c t = Returned \<longrightarrow>
               fst (onSocketConnection v' cfg rnd' socket' q t) = Returned \<and>
               length (heap t) \<noteq> c \<and>
               map_of (realm_clients (snd (onSocketConnection v' cfg rnd' socket' q t))) i =
                 Some (length (heap t)) \<and>
               heap (snd (onSocketConnection v' cfg rnd' socket' q t)) ! length (heap t) =
                 \<lparr>cid = i, ctoken = (case v' of JS \<Rightarrow> RECONNECT | TS \<Rightarrow> rnd'),
                  csocket = Some socket'\<rparr>) \<and>
            (close_outcome c t \<noteq> Returned \<longrightarrow>
               fst (onSocketConnection v' cfg rnd' socket' q t) = Threw SocketError \<and>
               map_of (realm_clients (snd (onSocketConnection v' cfg rnd' socket' q t))) i =
                 None)"
    if ok: "registry_ok cfg t" and lk: "map_of (realm_clients t) i = Some c"
  proof -
    note look = registry_ok_lookup [OF ok lk]
    have gone: "c \<notin> snd ` set (del i (realm_clients t))"
      using not_registered_after_del [OF ok, of c] look by simp
    have rm: "RealmRemoveClientById i \<in> set (evict_calls cfg c i t)"
      by (simp add: evict_calls_def)
    show ?thesis
    proof (cases "close_outcome c t = Returned")
      case True
      show ?thesis
        using True look gone rm evict_calls_no_emit [of "ConnectionEv c" cfg c i t]
        by (simp add: evict_path_returned [OF assms lk True below_limit_after_evict [OF ok lk]]
            new_calls_def map_of_del map_add_def nth_append)
    next
      case False
      show ?thesis
        using False look gone rm evict_calls_no_emit [of "ConnectionEv c" cfg c i t]
        by (simp add: evict_path_threw [OF assms lk False] new_calls_def map_of_del)
    qed
  qed
  show ?thesis using first later by blast
qed

theorem sentinel_token_is_stored_witness:
  "valid_attempt ex_cfg (ex_query ''A'' RECONNECT) ''A'' RECONNECT \<and>
   map_of (realm_clients init_state) ''A'' = None \<and>
   int (length (realm_clients init_state)) < cfg_concurrent_limit ex_cfg \<and>
   onSocketConnection JS ex_cfg [] 0 (ex_query ''A'' RECONNECT) init_state =
     (Returned,
      \<lparr>heap = [\<lparr>cid = ''A'', ctoken = ''__RECONNECT__'', csocket = Some 0\<rparr>],
       realm_clients = [(''A'', 0)], realm_queues = [], listeners = [(0, 0)], raising = [],
       trace = [RealmGetClientById ''A'', RealmGetClientsIds, RealmSetClient 0 ''A'',
                SocketSend 0 (Frame OPEN None), Emit (ConnectionEv 0)]\<rparr>) \<and>
   registry_ok ex_cfg (message_listener ex_parse 0 0 ''null'' (ex_session RECONNECT)) \<and>
   map_of (realm_clients (message_listener ex_parse 0 0 ''null'' (ex_session RECONNECT))) ''A'' =
     Some 0 \<and>
   ctoken (heap (message_listener ex_parse 0 0 ''null'' (ex_session RECONNECT)) ! 0) =
     RECONNECT \<and>
   close_outcome 0 (message_listener ex_parse 0 0 ''null'' (ex_session RECONNECT)) = Returned \<and>
   new_calls (message_listener ex_parse 0 0 ''null'' (ex_session RECONNECT))
     (snd (onSocketConnection TS ex_cfg ''k3x9'' 1 (ex_query ''A'' RECONNECT)
        (message_listener ex_parse 0 0 ''null'' (ex_session RECONNECT)))) =
     [RealmGetClientById ''A'', SocketClose 0, RealmClearMessageQueue ''A'',
      RealmRemoveClientById ''A'', OnClose 0, RealmGetClientsIds, RealmSetClient 1 ''A'',
      SocketSend 1 (Frame OPEN None), Emit (ConnectionEv 1)] \<and>
   heap (snd (onSocketConnection TS ex_cfg ''k3x9'' 1 (ex_query ''A'' RECONNECT)
        (message_listener ex_parse 0 0 ''null'' (ex_session RECONNECT)))) =
     [\<lparr>cid = ''A'', ctoken = ''__RECONNECT__'', csocket = None\<rparr>,
      \<lparr>cid = ''A'', ctoken = ''k3x9'', csocket = Some 1\<rparr>]"
proof -
  let ?t = "message_listener ex_parse 0 0 ''null'' (ex_session RECONNECT)"
  have va: "valid_attempt ex_cfg (ex_query ''A'' RECONNECT) ''A'' RECONNECT"
    by (simp add: valid_attempt_def run_defs)
  have lk: "map_of (realm_clients init_state) ''A'' = None"
    by (simp add: run_defs)
  have lim: "int (length (realm_clients init_state)) < cfg_concurrent_limit ex_cfg"
    by (simp add: run_defs)
  have ok: "registry_ok ex_cfg ?t"
    by (simp add: registry_ok_def run_defs)
  have lk': "map_of (realm_clients ?t) ''A'' = Some 0"
    by (simp add: run_defs)
  have co: "close_outcome 0 ?t = Returned"
    by (simp add: close_outcome_def run_defs)
  show ?thesis
    using sentinel_token_is_stored [OF va, where s = init_state and v = JS and rnd = "[]"
        and socket = 0 and t = ?t and c = 0 and v' = TS and rnd' = "''k3x9''" and socket' = 1]
      va lk lim ok lk' co
    by (simp add: run_defs)
qed

text \<open>
  Claim C10 as stated has no condition on the limit and none on the later attempt. With
  \<^verbatim>\<open>concurrent_limit = 1\<close> and peer \<open>A\<close> registered, a valid attempt of the unregistered
  peer \<open>B\<close> with the reconnect token is answered with \<^verbatim>\<open>CONNECTION_LIMIT_EXCEED\<close>: no
  client is constructed and none is registered for \<open>B\<close>. And when peer \<open>A\<close> has
  registered with the reconnect token and its socket has closed since, a later attempt
  of \<open>A\<close> with the reconnect token evicts nobody: it is a plain registration.
\<close>

theorem sentinel_at_limit_counterexample:
  "valid_attempt ex_cfg (ex_query ''B'' RECONNECT) ''B'' RECONNECT \<and>
   reachable ex_cfg (ex_session ''t1'') \<and>
   map_of (realm_clients (ex_session ''t1'')) ''B'' = None \<and>
   map_of (realm_clients (snd (onSocketConnection TS ex_cfg ''k3x9'' 1 (ex_query ''B'' RECONNECT)
      (ex_session ''t1'')))) ''B'' = None \<and>
   heap (snd (onSocketConnection TS ex_cfg ''k3x9'' 1 (ex_query ''B'' RECONNECT)
      (ex_session ''t1''))) = heap (ex_session ''t1'') \<and>
   new_calls (ex_session ''t1'')
     (snd (onSocketConnection TS ex_cfg ''k3x9'' 1 (ex_query ''B'' RECONNECT)
        (ex_session ''t1''))) =
     [RealmGetClientById ''B'', RealmGetClientsIds,
      SocketSend 1 (Frame ERROR (Some (ErrMsg CONNECTION_LIMIT_EXCEED))), SocketClose 1] \<and>
   realm_clients (snd (onSocketConnection JS ex_cfg [] 1 (ex_query ''B'' RECONNECT)
      (ex_session ''t1''))) = [(''A'', 0)] \<and>
   valid_attempt ex_cfg (ex_query ''A'' RECONNECT) ''A'' RECONNECT \<and>
   reachable ex_cfg (close_listener 0 0 (ex_session RECONNECT)) \<and>
   ctoken (heap (close_listener 0 0 (ex_session RECONNECT)) ! 0) = RECONNECT \<and>
   new_calls (close_listener 0 0 (ex_session RECONNECT))
     (snd (onSocketConnection TS ex_cfg ''k3x9'' 1 (ex_query ''A'' RECONNECT)
        (close_listener 0 0 (ex_session RECONNECT)))) =
     [RealmGetClientById ''A'', RealmGetClientsIds, RealmSetClient 1 ''A'',
      SocketSend 1 (Frame OPEN None), Emit (ConnectionEv 1)] \<and>
   new_calls (close_listener 0 0 (ex_session RECONNECT))
     (snd (onSocketConnection JS ex_cfg [] 1 (ex_query ''A'' RECONNECT)
        (close_listener 0 0 (ex_session RECONNECT)))) =
     [RealmGetClientById ''A'', RealmGetClientsIds, RealmSetClient 1 ''A'',
      SocketSend 1 (Frame OPEN None), Emit (ConnectionEv 1)]"
proof -
  have a: "reachable ex_cfg (ex_session ''t1'')"
    unfolding ex_session_def by (rule r_connect) (rule r_init)
  have "reachable ex_cfg (ex_session RECONNECT)"
    unfolding ex_session_def by (rule r_connect) (rule r_init)
  moreover have "(0, 0) \<in> set (listeners (ex_session RECONNECT))"
    by (simp add: run_defs)
  ultimately have b: "reachable ex_cfg (close_listener 0 0 (ex_session RECONNECT))"
    by (rule r_close)
  show ?thesis
    using a b by (simp add: valid_attempt_def run_defs)
qed

subsection \<open>The two variants\<close>

lemma variants_same_off_evict:
  assumes "\<not> (\<exists>i c. valid_attempt cfg q i RECONNECT \<and> map_of (realm_clients s) i = Some c)"
  shows "onSocketConnection_ts cfg rnd socket q s = onSocketConnection_js cfg socket q s"
  using assms
  by (auto simp: onSocketConnection_js_def onSocketConnection_ts_def realm_getClientById_def
      valid_attempt_def split: option.splits)

lemma evict_path_full:
  assumes "valid_attempt cfg q i RECONNECT" "map_of (realm_clients s) i = Some c"
    "close_outcome c s = Returned"
    "cfg_concurrent_limit cfg \<le> int (length (del i (realm_clients s)))"
  shows "onSocketConnection v cfg rnd socket q s =
     (if socket \<in> set (raising s) then Threw SocketError else Returned,
      s\<lparr>heap := (heap s)[c := (heap s ! c)\<lparr>csocket := None\<rparr>],
        realm_clients := del i (realm_clients s),
        realm_queues := del i (realm_queues s),
        trace := trace s @ RealmGetClientById i # evict_calls cfg c i s @
          [RealmGetClientsIds,
           SocketSend socket (Frame ERROR (Some (ErrMsg CONNECTION_LIMIT_EXCEED))),
           SocketClose socket]\<rparr>)"
proof -
  let ?s2 = "s\<lparr>heap := (heap s)[c := (heap s ! c)\<lparr>csocket := None\<rparr>],
        realm_clients := del i (realm_clients s),
        realm_queues := del i (realm_queues s),
        trace := trace s @ RealmGetClientById i # evict_calls cfg c i s\<rparr>"
  have ev: "evict cfg c i (log (RealmGetClientById i) s) = (Returned, ?s2)"
    using assms(3) by (simp add: evict_full) (simp add: log_def)
  have lim: "cfg_concurrent_limit cfg \<le> int (length (realm_clients ?s2))"
    using assms(4) by simp
  show ?thesis
    by (simp add: connection_evict [OF assms(1,2)] ev registerClient_full [OF lim])
qed

lemma update_last: "length xs = n \<Longrightarrow> (xs @ [x])[n := y] = xs @ [y]"
  by auto

text \<open>
  Claim C9. The two variants of \<^verbatim>\<open>_onSocketConnection\<close> return the same outcome and the same
  state on every attempt, except where an eviction is followed by a registration that is
  admitted. There they make the same calls and leave the same realm, listeners and
  queues, and the states differ in one field: the token of the client registered in
  place of the evicted one is the presented \<^verbatim>\<open>__RECONNECT__\<close> in the JavaScript variant and
  the random token in the TypeScript variant.
\<close>

theorem variants_differ_only_in_token:
  "(\<not> reregisters cfg q s \<longrightarrow>
      onSocketConnection_ts cfg rnd socket q s = onSocketConnection_js cfg socket q s) \<and>
   (reregisters cfg q s \<longrightarrow>
      fst (onSocketConnection_ts cfg rnd socket q s) = Returned \<and>
      fst (onSocketConnection_js cfg socket q s) = Returned \<and>
      snd (onSocketConnection_ts cfg rnd socket q s) =
        (snd (onSocketConnection_js cfg socket q s))
          \<lparr>heap := (heap (snd (onSocketConnection_js cfg socket q s)))
             [length (heap s) :=
                (heap (snd (onSocketConnection_js cfg socket q s)) ! length (heap s))
                  \<lparr>ctoken := rnd\<rparr>]\<rparr> \<and>
      ctoken (heap (snd (onSocketConnection_js cfg socket q s)) ! length (heap s)) = RECONNECT \<and>
      ctoken (heap (snd (onSocketConnection_ts cfg rnd socket q s)) ! length (heap s)) = rnd \<and>
      (\<exists>i. q_id q = Some i \<and>
         map_of (realm_clients (snd (onSocketConnection_js cfg socket q s))) i =
           Some (length (heap s)) \<and>
         map_of (realm_clients (snd (onSocketConnection_ts cfg rnd socket q s))) i =
           Some (length (heap s))))"
proof (cases "\<exists>i c. valid_attempt cfg q i RECONNECT \<and> map_of (realm_clients s) i = Some c")
  case False
  then have "\<not> reregisters cfg q s"
    by (auto simp: reregisters_def split: option.splits)
  with variants_same_off_evict [OF False] show ?thesis by simp
next
  case True
  then obtain i c where va: "valid_attempt cfg q i RECONNECT"
    and lk: "map_of (realm_clients s) i = Some c" by blast
  have qi: "q_id q = Some i" using va by (simp add: valid_attempt_def)
  have rr: "reregisters cfg q s \<longleftrightarrow>
      close_outcome c s = Returned \<and>
      int (length (del i (realm_clients s))) < cfg_concurrent_limit cfg"
    using va lk qi by (simp add: reregisters_def)
  have js: "onSocketConnection_js cfg socket q s = onSocketConnection JS cfg rnd socket q s"
    and ts: "onSocketConnection_ts cfg rnd socket q s = onSocketConnection TS cfg rnd socket q s"
    by simp_all
  show ?thesis
  proof (cases "close_outcome c s = Returned")
    case co: True
    show ?thesis
    proof (cases "int (length (del i (realm_clients s))) < cfg_concurrent_limit cfg")
      case lim: True
      have len: "length (heap s) = length ((heap s)[c := (heap s ! c)\<lparr>csocket := None\<rparr>])"
        by simp
      show ?thesis
        unfolding js ts
        using rr co lim qi
        by (simp add: evict_path_returned [OF va lk co lim] nth_append map_add_def map_of_del
            update_last)
    next
      case False
      then have full: "cfg_concurrent_limit cfg \<le> int (length (del i (realm_clients s)))"
        by simp
      show ?thesis
        unfolding js ts
        using rr False by (simp add: evict_path_full [OF va lk co full])
    qed
  next
    case False
    show ?thesis
      unfolding js ts
      using rr False by (simp add: evict_path_threw [OF va lk False])
  qed
qed

theorem variants_differ_only_in_token_witness:
  "reregisters ex_cfg (ex_query ''A'' RECONNECT) (ex_session ''t1'') \<and>
   snd (onSocketConnection_js ex_cfg 1 (ex_query ''A'' RECONNECT) (ex_session ''t1'')) =
     \<lparr>heap = [\<lparr>cid = ''A'', ctoken = ''t1'', csocket = None\<rparr>,
              \<lparr>cid = ''A'', ctoken = ''__RECONNECT__'', csocket = Some 1\<rparr>],
      realm_clients = [(''A'', 1)], realm_queues = [], listeners = [(0, 0), (1, 1)],
      raising = [],
      trace = [RealmGetClientById ''A'', RealmGetClientsIds, RealmSetClient 0 ''A'',
               SocketSend 0 (Frame OPEN None), Emit (ConnectionEv 0),
               RealmGetClientById ''A'', SocketClose 0, RealmClearMessageQueue ''A'',
               RealmRemoveClientById ''A'', OnClose 0, RealmGetClientsIds,
               RealmSetClient 1 ''A'', SocketSend 1 (Frame OPEN None),
               Emit (ConnectionEv 1)]\<rparr> \<and>
   snd (onSocketConnection_ts ex_cfg ''k3x9'' 1 (ex_query ''A'' RECONNECT) (ex_session ''t1'')) =
     \<lparr>heap = [\<lparr>cid = ''A'', ctoken = ''t1'', csocket = None\<rparr>,
              \<lparr>cid = ''A'', ctoken = ''k3x9'', csocket = Some 1\<rparr>],
      realm_clients = [(''A'', 1)], realm_queues = [], listeners = [(0, 0), (1, 1)],
      raising = [],
      trace = [RealmGetClientById ''A'', RealmGetClientsIds, RealmSetClient 0 ''A'',
               SocketSend 0 (Frame OPEN None), Emit (ConnectionEv 0),
               RealmGetClientById ''A'', SocketClose 0, RealmClearMessageQueue ''A'',
               RealmRemoveClientById ''A'', OnClose 0, RealmGetClientsIds,
               RealmSetClient 1 ''A'', SocketSend 1 (Frame OPEN None),
               Emit (ConnectionEv 1)]\<rparr> \<and>
   \<not> reregisters ex_cfg (ex_query ''A'' ''t1'') (ex_session ''t1'') \<and>
   onSocketConnection_ts ex_cfg ''k3x9'' 1 (ex_query ''A'' ''t1'') (ex_session ''t1'') =
     onSocketConnection_js ex_cfg 1 (ex_query ''A'' ''t1'') (ex_session ''t1'')"
proof -
  have a: "reregisters ex_cfg (ex_query ''A'' RECONNECT) (ex_session ''t1'')"
    by (simp add: reregisters_def valid_attempt_def close_outcome_def run_defs)
  have b: "\<not> reregisters ex_cfg (ex_query ''A'' ''t1'') (ex_session ''t1'')"
    by (simp add: reregisters_def valid_attempt_def close_outcome_def run_defs)
  show ?thesis
    using variants_differ_only_in_token
        [of ex_cfg "ex_query ''A'' RECONNECT" "ex_session ''t1''" "''k3x9''" 1]
      variants_differ_only_in_token
        [of ex_cfg "ex_query ''A'' ''t1''" "ex_session ''t1''" "''k3x9''" 1] a b
    by (simp add: run_defs)
qed

subsection \<open>One session per identifier\<close>

lemma filter_key_le_one:
  "distinct (map fst ps) \<Longrightarrow> length (filter (\<lambda>p. fst p = k) ps) \<le> Suc 0"
proof (induction ps)
  case Nil
  show ?case by simp
next
  case (Cons p ps)
  have "fst p \<notin> fst ` set ps" using Cons.prems by simp
  then have "\<forall>x\<in>set ps. fst x \<noteq> fst p" by (metis imageI)
  then have "filter (\<lambda>p. fst p = k) ps = []" if "fst p = k"
    using that by (simp add: filter_empty_conv)
  with Cons show ?case by auto
qed

lemma sessions_of_keys:
  assumes "registry_ok cfg s"
  shows "sessions_of s i = filter (\<lambda>p. fst p = i) (realm_clients s)"
  unfolding sessions_of_def
  using assms unfolding registry_ok_iff
  by (intro filter_cong) auto

lemma connection_realm:
  "realm_clients (snd (onSocketConnection v cfg rnd socket q s)) = realm_clients s \<or>
   (\<exists>i. q_id q = Some i \<and>
      (map_of (realm_clients s) i = None \<and>
         realm_clients (snd (onSocketConnection v cfg rnd socket q s)) =
           realm_clients s @ [(i, length (heap s))] \<or>
       map_of (realm_clients s) i \<noteq> None \<and> q_token q = Some RECONNECT \<and>
         (realm_clients (snd (onSocketConnection v cfg rnd socket q s)) =
            del i (realm_clients s) \<or>
          realm_clients (snd (onSocketConnection v cfg rnd socket q s)) =
            del i (realm_clients s) @ [(i, length (heap s))])))"
proof (cases "\<exists>i token. valid_attempt cfg q i token")
  case False
  from connection_invalid [OF this, of v rnd socket s] show ?thesis by auto
next
  case True
  then obtain i token where va: "valid_attempt cfg q i token" by blast
  have qi: "q_id q = Some i" and qt: "q_token q = Some token"
    using va by (simp_all add: valid_attempt_def)
  show ?thesis
  proof (cases "map_of (realm_clients s) i")
    case None
    show ?thesis
    proof (cases "int (length (realm_clients s)) < cfg_concurrent_limit cfg")
      case True
      show ?thesis
        using qi None by (simp add: register_path_admit [OF va None True])
    next
      case False
      then have "cfg_concurrent_limit cfg \<le> int (length (realm_clients s))" by simp
      then show ?thesis
        by (simp add: register_path_full [OF va None])
    qed
  next
    case (Some c)
    show ?thesis
    proof (cases "token = RECONNECT")
      case tk: True
      note va' = va [unfolded tk]
      show ?thesis
      proof (cases "close_outcome c s = Returned")
        case co: True
        show ?thesis
        proof (cases "int (length (del i (realm_clients s))) < cfg_concurrent_limit cfg")
          case True
          show ?thesis
            using qi qt tk Some by (simp add: evict_path_returned [OF va' Some co True])
        next
          case False
          then have "cfg_concurrent_limit cfg \<le> int (length (del i (realm_clients s)))" by simp
          then show ?thesis
            using qi qt tk Some by (simp add: evict_path_full [OF va' Some co])
        qed
      next
        case False
        show ?thesis
          using qi qt tk Some by (simp add: evict_path_threw [OF va' Some False])
      qed
    next
      case ntk: False
      show ?thesis
      proof (cases "token = ctoken (heap s ! c)")
        case True
        show ?thesis by (simp add: connection_rebind [OF va Some ntk True])
      next
        case False
        show ?thesis by (simp add: connection_reject [OF va Some ntk False])
      qed
    qed
  qed
qed

lemma connection_realm_keeps:
  assumes "valid_attempt cfg q i token" "map_of (realm_clients s) i = Some c"
    "token \<noteq> RECONNECT"
  shows "realm_clients (snd (onSocketConnection v cfg rnd socket q s)) = realm_clients s"
proof (cases "token = ctoken (heap s ! c)")
  case True
  show ?thesis by (simp add: connection_rebind [OF assms True])
next
  case False
  show ?thesis by (simp add: connection_reject [OF assms False])
qed

lemma close_listener_realm:
  "set (realm_clients (close_listener socket c s)) \<subseteq> set (realm_clients s)"
  by (auto simp: close_listener_def emit_def realm_removeClientById_def log_def in_set_del)

text \<open>
  Claim C2. In every state the server can reach, by any sequence of connection attempts
  (handled by either variant) and of socket events, at most one registered session has a
  given identifier, as the realm's key or as the client's own id; this also holds after
  any further connection attempt. An attempt adds a realm entry only for its own id and
  a newly constructed client, and only if the id had no entry or the attempt carried the
  reconnect token and every earlier entry of the id is gone. An attempt with another token
  for a registered id (rebind or reject) leaves the realm as it is, and the "close" and
  "message" listeners add nothing.
\<close>

theorem one_session_per_identifier:
  assumes "reachable cfg s"
  shows "length (sessions_of s i) \<le> 1 \<and>
         length (sessions_of (snd (onSocketConnection v cfg rnd socket q s)) i) \<le> 1 \<and>
         (\<forall>k c. (k, c) \<in> set (realm_clients (snd (onSocketConnection v cfg rnd socket q s))) \<and>
                (k, c) \<notin> set (realm_clients s) \<longrightarrow>
            q_id q = Some k \<and> c = length (heap s) \<and>
            (map_of (realm_clients s) k = None \<or>
             q_token q = Some RECONNECT \<and>
             (\<forall>c'. (k, c') \<in> set (realm_clients s) \<longrightarrow>
                (k, c') \<notin> set (realm_clients (snd (onSocketConnection v cfg rnd socket q s)))))) \<and>
         (\<forall>k token c. valid_attempt cfg q k token \<and> map_of (realm_clients s) k = Some c \<and>
                token \<noteq> RECONNECT \<longrightarrow>
            realm_clients (snd (onSocketConnection v cfg rnd socket q s)) = realm_clients s) \<and>
         set (realm_clients (close_listener socket' c' s)) \<subseteq> set (realm_clients s) \<and>
         realm_clients (message_listener JSON_parse socket' c' data s) = realm_clients s"
proof -
  let ?s1 = "snd (onSocketConnection v cfg rnd socket q s)"
  have ok: "registry_ok cfg s" using assms by (rule reachable_registry_ok)
  have "reachable cfg ?s1" using assms by (rule r_connect)
  then have ok1: "registry_ok cfg ?s1" by (rule reachable_registry_ok)
  have one: "length (sessions_of s i) \<le> 1"
    using ok filter_key_le_one [of "realm_clients s" i]
    by (simp add: sessions_of_keys [OF ok] registry_ok_def)
  have one1: "length (sessions_of ?s1 i) \<le> 1"
    using ok1 filter_key_le_one [of "realm_clients ?s1" i]
    by (simp add: sessions_of_keys [OF ok1] registry_ok_def)
  have fresh: "length (heap s) \<notin> snd ` set (realm_clients s)"
    using ok unfolding registry_ok_iff by fastforce
  have ins: "q_id q = Some k \<and> c = length (heap s) \<and>
            (map_of (realm_clients s) k = None \<or>
             q_token q = Some RECONNECT \<and>
             (\<forall>c'. (k, c') \<in> set (realm_clients s) \<longrightarrow> (k, c') \<notin> set (realm_clients ?s1)))"
    if "(k, c) \<in> set (realm_clients ?s1)" "(k, c) \<notin> set (realm_clients s)" for k c
    using connection_realm [of v cfg rnd socket q s] that fresh
    by (auto simp: in_set_del image_iff)
  have keep: "realm_clients ?s1 = realm_clients s"
    if "valid_attempt cfg q k token" "map_of (realm_clients s) k = Some c" "token \<noteq> RECONNECT"
    for k token c
    using that by (rule connection_realm_keeps)
  have msg: "realm_clients (message_listener JSON_parse socket' c' data s) = realm_clients s"
    using message_listener_state [of JSON_parse socket' c' data s]
    by (auto simp: emit_def log_def)
  show ?thesis
    using one one1 ins keep close_listener_realm [of socket' c' s] msg by blast
qed

theorem one_session_per_identifier_witness:
  "reachable ex_cfg (ex_session ''t1'') \<and>
   sessions_of (ex_session ''t1'') ''A'' = [(''A'', 0)] \<and>
   realm_clients (snd (onSocketConnection TS ex_cfg ''k3x9'' 1 (ex_query ''A'' RECONNECT)
      (ex_session ''t1''))) = [(''A'', 1)] \<and>
   length (sessions_of (snd (onSocketConnection TS ex_cfg ''k3x9'' 1 (ex_query ''A'' RECONNECT)
      (ex_session ''t1''))) ''A'') \<le> 1 \<and>
   valid_attempt ex_cfg (ex_query ''A'' ''t2'') ''A'' ''t2'' \<and>
   map_of (realm_clients (ex_session ''t1'')) ''A'' = Some 0 \<and>
   ''t2'' \<noteq> RECONNECT \<and>
   realm_clients (snd (onSocketConnection JS ex_cfg [] 1 (ex_query ''A'' ''t2'')
      (ex_session ''t1''))) = realm_clients (ex_session ''t1'') \<and>
   set (realm_clients (close_listener 0 0 (ex_session ''t1''))) \<subseteq>
     set (realm_clients (ex_session ''t1''))"
proof -
  have re: "reachable ex_cfg (ex_session ''t1'')"
    unfolding ex_session_def by (rule r_connect) (rule r_init)
  show ?thesis
    using re
      one_session_per_identifier [OF re, of "''A''" TS "''k3x9''" 1 "ex_query ''A'' RECONNECT" 0 0]
      one_session_per_identifier [OF re, of "''A''" JS "[]" 1 "ex_query ''A'' ''t2''" 0 0]
    by (simp add: sessions_of_def valid_attempt_def run_defs)
qed

end
